theory Spec2Isabelle
  imports Main "HOL-Library.AList"
begin

section \<open>Values and strings\<close>

text \<open>
  The handlers of \<^verbatim>\<open>server/app/main.py\<close> return Python dicts and keep JSON text in two
  database columns. A dict is an association list in insertion order. Floats do not occur
  in what the program writes and are left out.
\<close>

datatype json =
    JNull
  | JBool bool
  | JInt int
  | JStr string
  | JArr "json list"
  | JObj "(string \<times> json) list"

text \<open>
  A \<^typ>\<open>char\<close> stands for a code point below 256. \<^verbatim>\<open>str.isspace\<close> holds there for
  U+0009..U+000D, U+001C..U+0020, U+0085 and U+00A0.
\<close>

definition isspace :: "char \<Rightarrow> bool" where
  "isspace c =
     (let n = (of_char c :: nat)
      in (9 \<le> n \<and> n \<le> 13) \<or> (28 \<le> n \<and> n \<le> 32) \<or> n = 133 \<or> n = 160)"

definition strip :: "string \<Rightarrow> string" where
  "strip s = rev (dropWhile isspace (rev (dropWhile isspace s)))"

text \<open>
  \<^verbatim>\<open>str.lower\<close> below 256: A..Z and U+00C0..U+00DE without U+00D7 move up by 32.
\<close>

definition lower_char :: "char \<Rightarrow> char" where
  "lower_char c =
     (let n = (of_char c :: nat)
      in if (65 \<le> n \<and> n \<le> 90) \<or> (192 \<le> n \<and> n \<le> 222 \<and> n \<noteq> 215)
         then char_of (n + 32) else c)"

definition lower :: "string \<Rightarrow> string" where
  "lower s = map lower_char s"

text \<open>\<^verbatim>\<open>needle in haystack\<close> on strings.\<close>

fun contains :: "string \<Rightarrow> string \<Rightarrow> bool" where
  "contains q [] = (q = [])"
| "contains q (c # cs) = (take (length q) (c # cs) = q \<or> contains q cs)"

text \<open>\<^verbatim>\<open>s.split(sep)\<close> with a one-character separator: never empty, nothing merged.\<close>

fun split :: "char \<Rightarrow> string \<Rightarrow> string list" where
  "split sep [] = [[]]"
| "split sep (c # cs) =
     (if c = sep then [] # split sep cs
      else (case split sep cs of [] \<Rightarrow> [[c]] | p # ps \<Rightarrow> (c # p) # ps))"

section \<open>Errors\<close>

text \<open>
  Every exception a handler can raise is a value. \<open>HTTPException\<close> carries the status
  code and the detail; the others are not caught anywhere and reach the client as a
  response with status 500.
\<close>

datatype error =
    HTTPException nat string
  | PermissionError string
  | IntegrityError
  | JSONDecodeError
  | KeyError string
  | TypeError
  | AttributeError
  | OverflowError

fun status_code :: "error \<Rightarrow> nat" where
  "status_code (HTTPException c d) = c"
| "status_code e = 500"

definition is_server_error :: "error \<Rightarrow> bool" where
  "is_server_error e = (500 \<le> status_code e \<and> status_code e < 600)"

section \<open>Policy (\<^verbatim>\<open>server/app/policy.py\<close>)\<close>

definition DEFAULT_ALLOWED :: "string list" where
  "DEFAULT_ALLOWED =
     [''search_customer'', ''create_ticket'', ''update_customer_status'',
      ''send_message'', ''get_incident_impact'']"

text \<open>The argument is the value of \<^verbatim>\<open>os.getenv("ALLOWED_TOOLS", "")\<close>.\<close>

definition allowed_tools :: "string \<Rightarrow> string set" where
  "allowed_tools raw =
     (if strip raw = [] then set DEFAULT_ALLOWED
      else set (filter (\<lambda>x. x \<noteq> []) (map strip (split CHR '','' raw))))"

definition assert_allowed :: "string \<Rightarrow> string \<Rightarrow> error + unit" where
  "assert_allowed raw tool =
     (if tool \<notin> allowed_tools raw
      then Inl (PermissionError (''Tool not allowed by policy: '' @ tool))
      else Inr ())"

definition tool_guard :: "string \<Rightarrow> string \<Rightarrow> error + unit" where
  "tool_guard raw tool =
     (case assert_allowed raw tool of
        Inl (PermissionError m) \<Rightarrow> Inl (HTTPException 403 m)
      | Inl e \<Rightarrow> Inl e
      | Inr u \<Rightarrow> Inr u)"

section \<open>Tables (\<^verbatim>\<open>server/app/models.py\<close>)\<close>

text \<open>
  One record per mapped class, one list of rows per table, in insertion order. The
  \<open>created_at\<close> columns hold the clock reading as ISO text.
\<close>

record customer =
  c_id :: int
  c_name :: string
  c_status :: string

record ticket =
  t_id :: int
  t_title :: string
  t_description :: string
  t_priority :: string
  t_created_at :: string
  t_customer_id :: int

record idempotency_record =
  ir_id :: int
  ir_tool :: string
  ir_key :: string
  ir_response_json :: string
  ir_created_at :: string

record pending_action =
  pa_id :: string
  pa_action_type :: string
  pa_payload_json :: string
  pa_status :: string
  pa_created_at :: string

record db =
  customers :: "customer list"
  tickets :: "ticket list"
  idempotency_records :: "idempotency_record list"
  pending_actions :: "pending_action list"

text \<open>
  What a request reads from outside the database: the environment variable of the policy,
  the clock (read once for each row inserted, at most twice in a request), the identifier
  drawn by \<^verbatim>\<open>uuid.uuid4().hex\<close>, and the standard library's \<^verbatim>\<open>json.loads\<close> (\<open>None\<close>
  when it raises) and \<^verbatim>\<open>json.dumps\<close>. The codec is not code of this program and stays a
  parameter. So does \<open>bind_value\<close>, what the database driver makes of a value that is
  not an integer when it is compared with an integer key: an error when the value cannot be
  bound, \<open>None\<close> when no key compares equal, \<open>Some n\<close> when the key \<open>n\<close> does.
\<close>

record env =
  ALLOWED_TOOLS :: string
  utcnow :: string
  utcnow_again :: string
  uuid4_hex :: string
  loads :: "string \<Rightarrow> json option"
  dumps :: "json \<Rightarrow> string"
  bind_value :: "json \<Rightarrow> error + int option"

text \<open>
  An integer primary key left to SQLite: one more than the largest in use. This is the rule
  while the largest key is below \<open>2 ^ 63 - 1\<close>; at that bound SQLite searches for an unused
  key at random, which is outside the model.
\<close>

fun next_id :: "int list \<Rightarrow> int" where
  "next_id [] = 1"
| "next_id (x # xs) = fold max xs x + 1"

text \<open>
  \<^verbatim>\<open>db.query(Customer).filter_by(id=...).first()\<close>. The driver binds a Python integer as a
  signed 64-bit value and raises \<^verbatim>\<open>OverflowError\<close> for any other; \<open>customer_row\<close> is the
  first row with the key.
\<close>

definition bindable :: "int \<Rightarrow> bool" where
  "bindable i = (- (2 ^ 63) \<le> i \<and> i < 2 ^ 63)"

definition customer_row :: "db \<Rightarrow> int \<Rightarrow> customer option" where
  "customer_row d i = find (\<lambda>c. c_id c = i) (customers d)"

definition find_customer :: "db \<Rightarrow> int \<Rightarrow> error + customer option" where
  "find_customer d i = (if bindable i then Inr (customer_row d i) else Inl OverflowError)"

text \<open>The same query for pending actions and idempotency records, on string keys.\<close>

definition find_pending :: "db \<Rightarrow> string \<Rightarrow> pending_action option" where
  "find_pending d i = find (\<lambda>p. pa_id p = i) (pending_actions d)"

definition find_record :: "db \<Rightarrow> string \<Rightarrow> string \<Rightarrow> idempotency_record option" where
  "find_record d tool key =
     find (\<lambda>r. ir_tool r = tool \<and> ir_key r = key) (idempotency_records d)"

text \<open>
  Assigning a column of a loaded row and committing is an \<^verbatim>\<open>UPDATE ... WHERE id = ?\<close>.
\<close>

definition set_customer_status :: "db \<Rightarrow> int \<Rightarrow> string \<Rightarrow> db" where
  "set_customer_status d i s =
     d\<lparr>customers := map (\<lambda>c. if c_id c = i then c\<lparr>c_status := s\<rparr> else c) (customers d)\<rparr>"

definition set_pending_status :: "db \<Rightarrow> string \<Rightarrow> string \<Rightarrow> db" where
  "set_pending_status d i s =
     d\<lparr>pending_actions :=
         map (\<lambda>p. if pa_id p = i then p\<lparr>pa_status := s\<rparr> else p) (pending_actions d)\<rparr>"

text \<open>
  \<^verbatim>\<open>db.add(pa); db.commit()\<close>: the primary key \<open>id\<close> rejects a second row with the same
  identifier.
\<close>

definition add_pending :: "db \<Rightarrow> pending_action \<Rightarrow> error + db" where
  "add_pending d pa =
     (case find_pending d (pa_id pa) of
        Some p \<Rightarrow> Inl IntegrityError
      | None \<Rightarrow> Inr (d\<lparr>pending_actions := pending_actions d @ [pa]\<rparr>))"

definition customer_json :: "customer \<Rightarrow> json" where
  "customer_json c =
     JObj [(''id'', JInt (c_id c)), (''name'', JStr (c_name c)), (''status'', JStr (c_status c))]"

text \<open>\<^verbatim>\<open>seed_if_empty\<close>, run by \<^verbatim>\<open>get_db\<close> before a handler receives its session.\<close>

definition seed_if_empty :: "db \<Rightarrow> db" where
  "seed_if_empty d =
     (if length (customers d) = 0
      then d\<lparr>customers :=
               [\<lparr>c_id = 1, c_name = ''ACME AB'', c_status = ''Active''\<rparr>,
                \<lparr>c_id = 2, c_name = ''Nordic Widgets'', c_status = ''Active''\<rparr>,
                \<lparr>c_id = 3, c_name = ''Beta Logistics'', c_status = ''Active''\<rparr>]\<rparr>
      else d)"

section \<open>Idempotency store (\<^verbatim>\<open>server/app/idempotency.py\<close>)\<close>

text \<open>Python's \<open>None\<close> is \<open>JNull\<close>: the caller cannot tell a missing row from a stored null.\<close>

definition get_cached_response :: "env \<Rightarrow> db \<Rightarrow> string \<Rightarrow> string \<Rightarrow> error + json" where
  "get_cached_response e d tool key =
     (case find_record d tool key of
        None \<Rightarrow> Inr JNull
      | Some rec \<Rightarrow>
          (case loads e (ir_response_json rec) of
             None \<Rightarrow> Inl JSONDecodeError
           | Some v \<Rightarrow> Inr v))"

text \<open>
  The commit fails on the constraint \<^verbatim>\<open>uq_tool_key\<close> when a row for the pair is there; the
  session is then discarded with the request and nothing is written.
\<close>

definition store_response :: "env \<Rightarrow> db \<Rightarrow> string \<Rightarrow> string \<Rightarrow> json \<Rightarrow> (error + unit) \<times> db" where
  "store_response e d tool key response =
     (let rec = \<lparr>ir_id = next_id (map ir_id (idempotency_records d)),
                 ir_tool = tool, ir_key = key,
                 ir_response_json = dumps e response,
                 ir_created_at = utcnow e\<rparr>
      in case find_record d tool key of
           Some r \<Rightarrow> (Inl IntegrityError, d)
         | None \<Rightarrow> (Inr (), d\<lparr>idempotency_records := idempotency_records d @ [rec]\<rparr>))"

section \<open>Request payloads (\<^verbatim>\<open>server/app/main.py\<close>, schemas)\<close>

record create_ticket_in =
  ct_customer_id :: int
  ct_title :: string
  ct_description :: string
  ct_priority :: string

record update_customer_status_in =
  ucs_customer_id :: int
  ucs_new_status :: string
  ucs_confirm :: bool

text \<open>\<^verbatim>\<open>payload.model_dump()\<close> of an \<^verbatim>\<open>UpdateCustomerStatusIn\<close>, fields in declaration order.\<close>

definition model_dump :: "update_customer_status_in \<Rightarrow> json" where
  "model_dump p =
     JObj [(''customer_id'', JInt (ucs_customer_id p)),
           (''new_status'', JStr (ucs_new_status p)),
           (''confirm'', JBool (ucs_confirm p))]"

text \<open>
  The header \<^verbatim>\<open>Idempotency-Key\<close> is optional; \<^verbatim>\<open>if idempotency_key:\<close> holds for a header
  that is present and not empty.
\<close>

definition key_text :: "string option \<Rightarrow> string" where
  "key_text k = (case k of None \<Rightarrow> [] | Some s \<Rightarrow> s)"

definition truthy :: "string option \<Rightarrow> bool" where
  "truthy k = (key_text k \<noteq> [])"

text \<open>\<^verbatim>\<open>data[key]\<close>: only a dict can be indexed by a string, and the key must be there.\<close>

definition subscript :: "json \<Rightarrow> string \<Rightarrow> error + json" where
  "subscript data key =
     (case data of
        JObj kv \<Rightarrow> (case map_of kv key of None \<Rightarrow> Inl (KeyError key) | Some v \<Rightarrow> Inr v)
      | _ \<Rightarrow> Inl TypeError)"

text \<open>\<^verbatim>\<open>{**d, key: v}\<close>: only a mapping can be unpacked.\<close>

definition dict_with :: "json \<Rightarrow> string \<Rightarrow> json \<Rightarrow> error + json" where
  "dict_with d key v =
     (case d of
        JObj kv \<Rightarrow> Inr (JObj (AList.update key v kv))
      | _ \<Rightarrow> Inl TypeError)"

section \<open>Tool handlers (\<^verbatim>\<open>server/app/main.py\<close>)\<close>

text \<open>
  A handler takes the session that \<^verbatim>\<open>get_db\<close> yields and returns its outcome with the
  database as committed. The lines appended to the audit file by \<^verbatim>\<open>log_event\<close> are not
  part of the database and are not modelled.
\<close>

definition search_customer :: "env \<Rightarrow> string \<Rightarrow> db \<Rightarrow> (error + json) \<times> db" where
  "search_customer e query d =
     (case tool_guard (ALLOWED_TOOLS e) ''search_customer'' of
        Inl err \<Rightarrow> (Inl err, d)
      | Inr u \<Rightarrow>
          (let q = lower (strip query);
               matches = filter (\<lambda>c. contains q (lower (c_name c))) (customers d)
           in (Inr (JObj [(''results'', JArr (map customer_json matches))]), d)))"

text \<open>
  Lines 213 to 241 of \<^verbatim>\<open>create_ticket\<close>: the execution proper. The ticket is committed
  before the response is stored, and the record of the response takes the second reading of
  the clock.
\<close>

definition create_ticket_execute ::
    "env \<Rightarrow> create_ticket_in \<Rightarrow> string option \<Rightarrow> db \<Rightarrow> (error + json) \<times> db" where
  "create_ticket_execute e payload idempotency_key d =
     (case find_customer d (ct_customer_id payload) of
        Inl err \<Rightarrow> (Inl err, d)
      | Inr None \<Rightarrow> (Inl (HTTPException 404 ''Customer not found''), d)
      | Inr (Some cust) \<Rightarrow>
          (let t = \<lparr>t_id = next_id (map t_id (tickets d)),
                     t_title = strip (ct_title payload),
                     t_description = strip (ct_description payload),
                     t_priority = lower (strip (ct_priority payload)),
                     t_created_at = utcnow e,
                     t_customer_id = ct_customer_id payload\<rparr>;
               d1 = d\<lparr>tickets := tickets d @ [t]\<rparr>;
               response =
                 [(''ticket'',
                   JObj [(''id'', JInt (t_id t)),
                         (''customer_id'', JInt (t_customer_id t)),
                         (''title'', JStr (t_title t)),
                         (''priority'', JStr (t_priority t)),
                         (''created_at'', JStr (t_created_at t @ ''Z''))])];
               out = JObj (AList.update ''idempotent_replay'' (JBool False) response)
           in if truthy idempotency_key
              then (case store_response (e\<lparr>utcnow := utcnow_again e\<rparr>) d1 ''create_ticket''
                           (key_text idempotency_key)
                           (JObj response) of
                      (Inl err, d2) \<Rightarrow> (Inl err, d2)
                    | (Inr u, d2) \<Rightarrow> (Inr out, d2))
              else (Inr out, d1)))"

definition create_ticket ::
    "env \<Rightarrow> create_ticket_in \<Rightarrow> string option \<Rightarrow> db \<Rightarrow> (error + json) \<times> db" where
  "create_ticket e payload idempotency_key d =
     (case tool_guard (ALLOWED_TOOLS e) ''create_ticket'' of
        Inl err \<Rightarrow> (Inl err, d)
      | Inr u \<Rightarrow>
          if truthy idempotency_key
          then (case get_cached_response e d ''create_ticket'' (key_text idempotency_key) of
                  Inl err \<Rightarrow> (Inl err, d)
                | Inr cached \<Rightarrow>
                    if cached \<noteq> JNull
                    then (case dict_with cached ''idempotent_replay'' (JBool True) of
                            Inl err \<Rightarrow> (Inl err, d)
                          | Inr out \<Rightarrow> (Inr out, d))
                    else create_ticket_execute e payload idempotency_key d)
          else create_ticket_execute e payload idempotency_key d)"

definition update_customer_status ::
    "env \<Rightarrow> update_customer_status_in \<Rightarrow> db \<Rightarrow> (error + json) \<times> db" where
  "update_customer_status e payload d =
     (case tool_guard (ALLOWED_TOOLS e) ''update_customer_status'' of
        Inl err \<Rightarrow> (Inl err, d)
      | Inr u \<Rightarrow>
          (case find_customer d (ucs_customer_id payload) of
             Inl err \<Rightarrow> (Inl err, d)
           | Inr None \<Rightarrow> (Inl (HTTPException 404 ''Customer not found''), d)
           | Inr (Some cust) \<Rightarrow>
               if \<not> ucs_confirm payload
               then (let pending_id = uuid4_hex e;
                         pa = \<lparr>pa_id = pending_id,
                                pa_action_type = ''update_customer_status'',
                                pa_payload_json = dumps e (model_dump payload),
                                pa_status = ''pending'',
                                pa_created_at = utcnow e\<rparr>
                     in case add_pending d pa of
                          Inl err \<Rightarrow> (Inl err, d)
                        | Inr d1 \<Rightarrow>
                            (Inr (JObj [(''requires_confirmation'', JBool True),
                                        (''pending_action_id'', JStr pending_id),
                                        (''customer'', JNull)]), d1))
               else (let s = strip (ucs_new_status payload);
                         d1 = set_customer_status d (c_id cust) s
                     in (Inr (JObj [(''requires_confirmation'', JBool False),
                                    (''pending_action_id'', JNull),
                                    (''customer'', customer_json (cust\<lparr>c_status := s\<rparr>))]), d1))))"

definition send_message :: "env \<Rightarrow> string \<Rightarrow> string \<Rightarrow> error + json" where
  "send_message e channel message =
     (case tool_guard (ALLOWED_TOOLS e) ''send_message'' of
        Inl err \<Rightarrow> Inl err
      | Inr u \<Rightarrow> Inr (JObj [(''sent'', JBool True), (''channel'', JStr channel)]))"

definition get_incident_impact :: "env \<Rightarrow> string \<Rightarrow> db \<Rightarrow> (error + json) \<times> db" where
  "get_incident_impact e incident_id d =
     (case tool_guard (ALLOWED_TOOLS e) ''get_incident_impact'' of
        Inl err \<Rightarrow> (Inl err, d)
      | Inr u \<Rightarrow>
          (Inr (JObj [(''incident_id'', JStr incident_id),
                      (''affected_customers'', JArr (map customer_json (customers d)))]), d))"

section \<open>Confirmation (\<^verbatim>\<open>confirm_action\<close>)\<close>

text \<open>
  \<^verbatim>\<open>filter_by(id=data["customer_id"])\<close> on a decoded value. \<^verbatim>\<open>model_dump\<close> always writes
  an integer there; any other JSON value goes to the driver as it is, and the outcome is
  the environment's \<open>bind_value\<close>.
\<close>

definition customer_by_value :: "env \<Rightarrow> db \<Rightarrow> json \<Rightarrow> error + customer option" where
  "customer_by_value e d v =
     (case v of
        JInt i \<Rightarrow> find_customer d i
      | _ \<Rightarrow>
          (case bind_value e v of
             Inl err \<Rightarrow> Inl err
           | Inr None \<Rightarrow> Inr None
           | Inr (Some n) \<Rightarrow> Inr (customer_row d n)))"

text \<open>\<^verbatim>\<open>v.strip()\<close> on a decoded value: only a string has the method.\<close>

definition strip_value :: "json \<Rightarrow> error + string" where
  "strip_value v = (case v of JStr s \<Rightarrow> Inr (strip s) | _ \<Rightarrow> Inl AttributeError)"

definition confirm_action :: "env \<Rightarrow> string \<Rightarrow> bool \<Rightarrow> db \<Rightarrow> (error + json) \<times> db" where
  "confirm_action e pending_action_id approve d =
     (case find_pending d pending_action_id of
        None \<Rightarrow> (Inl (HTTPException 404 ''Pending action not found''), d)
      | Some pa \<Rightarrow>
          if pa_status pa \<noteq> ''pending''
          then (Inl (HTTPException 409 (''Pending action already '' @ pa_status pa)), d)
          else if \<not> approve
          then (Inr (JObj [(''ok'', JBool True), (''status'', JStr ''rejected'')]),
                set_pending_status d (pa_id pa) ''rejected'')
          else
            (case loads e (pa_payload_json pa) of
               None \<Rightarrow> (Inl JSONDecodeError, d)
             | Some data \<Rightarrow>
                 if pa_action_type pa = ''update_customer_status''
                 then
                   (case subscript data ''customer_id'' of
                      Inl err \<Rightarrow> (Inl err, d)
                    | Inr v \<Rightarrow>
                        (case customer_by_value e d v of
                           Inl err \<Rightarrow> (Inl err, d)
                         | Inr None \<Rightarrow>
                             (Inl (HTTPException 404 ''Customer not found during confirm''),
                              set_pending_status d (pa_id pa) ''rejected'')
                         | Inr (Some cust) \<Rightarrow>
                             (case subscript data ''new_status'' of
                                Inl err \<Rightarrow> (Inl err, d)
                              | Inr w \<Rightarrow>
                                  (case strip_value w of
                                     Inl err \<Rightarrow> (Inl err, d)
                                   | Inr s \<Rightarrow>
                                       (Inr (JObj [(''ok'', JBool True),
                                                   (''status'', JStr ''confirmed''),
                                                   (''customer'',
                                                    customer_json (cust\<lparr>c_status := s\<rparr>))]),
                                        set_pending_status
                                          (set_customer_status d (c_id cust) s)
                                          (pa_id pa) ''confirmed'')))))
                 else (Inl (HTTPException 400 (''Unknown action_type: '' @ pa_action_type pa)),
                       set_pending_status d (pa_id pa) ''rejected'')))"

section \<open>Requests\<close>

text \<open>The routes of the application: five tools behind the policy, and the confirmation.\<close>

datatype tool_call =
    SearchCustomer string
  | CreateTicket create_ticket_in "string option"
  | UpdateCustomerStatus update_customer_status_in
  | SendMessage string string
  | GetIncidentImpact string

fun tool_name :: "tool_call \<Rightarrow> string" where
  "tool_name (SearchCustomer q) = ''search_customer''"
| "tool_name (CreateTicket p k) = ''create_ticket''"
| "tool_name (UpdateCustomerStatus p) = ''update_customer_status''"
| "tool_name (SendMessage c m) = ''send_message''"
| "tool_name (GetIncidentImpact i) = ''get_incident_impact''"

fun invoke :: "env \<Rightarrow> tool_call \<Rightarrow> db \<Rightarrow> (error + json) \<times> db" where
  "invoke e (SearchCustomer q) d = search_customer e q d"
| "invoke e (CreateTicket p k) d = create_ticket e p k d"
| "invoke e (UpdateCustomerStatus p) d = update_customer_status e p d"
| "invoke e (SendMessage c m) d = (send_message e c m, d)"
| "invoke e (GetIncidentImpact i) d = get_incident_impact e i d"

datatype request = Tool tool_call | Confirm string bool

fun handle :: "env \<Rightarrow> request \<Rightarrow> db \<Rightarrow> (error + json) \<times> db" where
  "handle e (Tool c) d = invoke e c d"
| "handle e (Confirm i approve) d = confirm_action e i approve d"

text \<open>
  A request as served: every route but \<^verbatim>\<open>send_message\<close> depends on \<^verbatim>\<open>get_db\<close>, which
  seeds an empty customer table before the handler runs.
\<close>

fun serve :: "env \<Rightarrow> request \<Rightarrow> db \<Rightarrow> (error + json) \<times> db" where
  "serve e (Tool (SendMessage c m)) d = handle e (Tool (SendMessage c m)) d"
| "serve e r d = handle e r (seed_if_empty d)"

text \<open>A sequence of served requests, each with what it reads from outside.\<close>

fun run :: "(env \<times> request) list \<Rightarrow> db \<Rightarrow> db" where
  "run [] d = d"
| "run ((e, r) # rs) d = run rs (snd (serve e r d))"

section \<open>Well-formed stored payloads\<close>

text \<open>
  A pending action whose payload decodes and, for the one action type the executor knows,
  carries an integer \<open>customer_id\<close> that the driver can bind and a string \<open>new_status\<close>: what
  \<^verbatim>\<open>update_customer_status\<close> writes when the codec reads back what it wrote.
\<close>

definition payload_ok :: "(string \<Rightarrow> json option) \<Rightarrow> pending_action \<Rightarrow> bool" where
  "payload_ok l pa =
     (case l (pa_payload_json pa) of
        None \<Rightarrow> False
      | Some data \<Rightarrow>
          if pa_action_type pa = ''update_customer_status''
          then (case subscript data ''customer_id'' of
                  Inr (JInt c) \<Rightarrow>
                    bindable c \<and>
                    (case subscript data ''new_status'' of Inr (JStr s) \<Rightarrow> True | _ \<Rightarrow> False)
                | _ \<Rightarrow> False)
          else True)"

text \<open>
  The codec \<open>l\<close> reads back the payload that the request \<open>r\<close>, served under \<open>e\<close>,
  would store: \<^verbatim>\<open>json.loads(json.dumps(x)) == x\<close> for that one document.
\<close>

fun reads_back :: "(string \<Rightarrow> json option) \<Rightarrow> env \<times> request \<Rightarrow> bool" where
  "reads_back l (e, Tool (UpdateCustomerStatus p)) =
     (l (dumps e (model_dump p)) = Some (model_dump p))"
| "reads_back l (e, r) = True"

section \<open>A worked example\<close>

text \<open>
  A database after some traffic: the three seeded customers, one ticket created under the
  key \<^verbatim>\<open>k1\<close>, and four pending actions (one open, one confirmed, one of a type the
  executor does not know, one for a customer that is gone). The codec of the example is
  the library's on the documents that occur here; \<open>example_loads\<close> takes any other text
  as undecodable and \<open>example_dumps\<close> is only used on the listed documents. Likewise
  \<open>example_bind\<close> is the driver on the text \<^verbatim>\<open>"1"\<close>, which SQLite compares equal to the
  key 1, and is used on no other value.
\<close>

definition example_status_in :: update_customer_status_in where
  "example_status_in =
     \<lparr>ucs_customer_id = 1, ucs_new_status = '' Churned '', ucs_confirm = False\<rparr>"

definition example_status_text :: string where
  \<open>example_status_text = ''{"customer_id": 1, "new_status": " Churned ", "confirm": false}''\<close>

definition example_gone :: json where
  "example_gone =
     JObj [(''customer_id'', JInt 9), (''new_status'', JStr ''Paused''), (''confirm'', JBool False)]"

definition example_gone_text :: string where
  \<open>example_gone_text = ''{"customer_id": 9, "new_status": "Paused", "confirm": false}''\<close>

definition example_response :: "(string \<times> json) list" where
  "example_response =
     [(''ticket'',
       JObj [(''id'', JInt 1), (''customer_id'', JInt 1), (''title'', JStr ''Latency''),
             (''priority'', JStr ''high''), (''created_at'', JStr ''2024-05-01T10:00:00Z'')])]"

definition example_response_text :: string where
  \<open>example_response_text =
     ''{"ticket": {"id": 1, "customer_id": 1, "title": "Latency", "priority": "high", "created_at": "2024-05-01T10:00:00Z"}}''\<close>

definition example_loads :: "string \<Rightarrow> json option" where
  "example_loads s =
     (if s = example_status_text then Some (model_dump example_status_in)
      else if s = example_gone_text then Some example_gone
      else if s = example_response_text then Some (JObj example_response)
      else if s = ''{}'' then Some (JObj [])
      else None)"

definition example_dumps :: "json \<Rightarrow> string" where
  "example_dumps v =
     (if v = model_dump example_status_in then example_status_text
      else if v = example_gone then example_gone_text
      else if v = JObj example_response then example_response_text
      else ''{}'')"

definition example_bind :: "json \<Rightarrow> error + int option" where
  "example_bind v = (if v = JStr ''1'' then Inr (Some 1) else Inr None)"

definition example_env :: env where
  "example_env =
     \<lparr>ALLOWED_TOOLS = ''create_ticket, update_customer_status'',
      utcnow = ''2024-05-01T10:00:00'',
      utcnow_again = ''2024-05-01T10:00:01'',
      uuid4_hex = ''9f1c2d3e4a5b4c6d8e7f0a1b2c3d4e5f'',
      loads = example_loads,
      dumps = example_dumps,
      bind_value = example_bind\<rparr>"

text \<open>Identifiers as \<^verbatim>\<open>uuid.uuid4().hex\<close> gives them.\<close>

abbreviation open_id :: string where
  "open_id \<equiv> ''3b241101e2bb4255a9d3c1f0e4a7b6c5''"

abbreviation done_id :: string where
  "done_id \<equiv> ''7d0c5a9e1f2b4c3d8a6b5e4f3a2b1c0d''"

abbreviation odd_id :: string where
  "odd_id \<equiv> ''c4ca4238a0b923820dcc509a6f75849b''"

abbreviation gone_id :: string where
  "gone_id \<equiv> ''e4da3b7fbbce2345d7772b0674a318d5''"

definition example_db :: db where
  "example_db =
     \<lparr>customers =
        [\<lparr>c_id = 1, c_name = ''ACME AB'', c_status = ''Active''\<rparr>,
         \<lparr>c_id = 2, c_name = ''Nordic Widgets'', c_status = ''Active''\<rparr>,
         \<lparr>c_id = 3, c_name = ''Beta Logistics'', c_status = ''Active''\<rparr>],
      tickets =
        [\<lparr>t_id = 1, t_title = ''Latency'', t_description = ''Slow pages'',
          t_priority = ''high'', t_created_at = ''2024-05-01T10:00:00'', t_customer_id = 1\<rparr>],
      idempotency_records =
        [\<lparr>ir_id = 1, ir_tool = ''create_ticket'', ir_key = ''k1'',
          ir_response_json = example_response_text, ir_created_at = ''2024-05-01T10:00:00''\<rparr>],
      pending_actions =
        [\<lparr>pa_id = open_id, pa_action_type = ''update_customer_status'',
          pa_payload_json = example_status_text, pa_status = ''pending'',
          pa_created_at = ''2024-05-01T10:01:00''\<rparr>,
         \<lparr>pa_id = done_id, pa_action_type = ''update_customer_status'',
          pa_payload_json = example_status_text, pa_status = ''confirmed'',
          pa_created_at = ''2024-05-01T10:02:00''\<rparr>,
         \<lparr>pa_id = odd_id, pa_action_type = ''delete_customer'',
          pa_payload_json = ''{}'', pa_status = ''pending'',
          pa_created_at = ''2024-05-01T10:03:00''\<rparr>,
         \<lparr>pa_id = gone_id, pa_action_type = ''update_customer_status'',
          pa_payload_json = example_gone_text, pa_status = ''pending'',
          pa_created_at = ''2024-05-01T10:04:00''\<rparr>]\<rparr>"

lemmas example_defs =
  example_env_def example_db_def example_loads_def example_dumps_def example_bind_def
  example_status_in_def
  example_status_text_def example_gone_def example_gone_text_def example_response_def
  example_response_text_def

section \<open>Seeding\<close>

text \<open>
  \<^verbatim>\<open>get_db\<close> seeds only an empty customer table and touches nothing else, so on a
  database with a customer a handler receives the database as stored.
\<close>

lemma seed_if_empty_idle: "customers d \<noteq> [] \<Longrightarrow> seed_if_empty d = d"
  by (simp add: seed_if_empty_def)

lemma seed_if_empty_frame:
  "tickets (seed_if_empty d) = tickets d \<and>
   idempotency_records (seed_if_empty d) = idempotency_records d \<and>
   pending_actions (seed_if_empty d) = pending_actions d"
  by (simp add: seed_if_empty_def)

lemma find_customer_found:
  "find_customer d i = Inr (Some c) \<Longrightarrow> bindable i \<and> customer_row d i = Some c"
  by (simp add: find_customer_def split: if_splits)

lemma find_customer_absent:
  "find_customer d i = Inr None \<Longrightarrow> bindable i \<and> customer_row d i = None"
  by (simp add: find_customer_def split: if_splits)

lemma find_customer_unbindable:
  "\<not> bindable i \<Longrightarrow> find_customer d i = Inl OverflowError"
  by (simp add: find_customer_def)

section \<open>The policy gate\<close>

lemma tool_guard_allowed:
  "tool \<in> allowed_tools raw \<Longrightarrow> tool_guard raw tool = Inr ()"
  by (simp add: tool_guard_def assert_allowed_def)

lemma tool_guard_denied:
  "tool \<notin> allowed_tools raw \<Longrightarrow>
   tool_guard raw tool = Inl (HTTPException 403 (''Tool not allowed by policy: '' @ tool))"
  by (simp add: tool_guard_def assert_allowed_def)

lemma invoke_denied:
  assumes "tool_name c \<notin> allowed_tools (ALLOWED_TOOLS e)"
  shows "invoke e c d =
         (Inl (HTTPException 403 (''Tool not allowed by policy: '' @ tool_name c)), d)"
proof (cases c)
  case (SearchCustomer q)
  with assms show ?thesis
    by (simp add: search_customer_def tool_guard_denied)
next
  case (CreateTicket p k)
  with assms show ?thesis
    by (simp add: create_ticket_def tool_guard_denied)
next
  case (UpdateCustomerStatus p)
  with assms show ?thesis
    by (simp add: update_customer_status_def tool_guard_denied)
next
  case (SendMessage ch m)
  with assms show ?thesis
    by (simp add: send_message_def tool_guard_denied)
next
  case (GetIncidentImpact i)
  with assms show ?thesis
    by (simp add: get_incident_impact_def tool_guard_denied)
qed

lemma example_allowed:
  "allowed_tools (ALLOWED_TOOLS example_env) = {''create_ticket'', ''update_customer_status''}"
  by (simp add: example_env_def allowed_tools_def strip_def isspace_def)

text \<open>
  Claim C8. A tool name outside the allowed set makes \<open>assert_allowed\<close> raise
  \<open>PermissionError\<close>, which \<open>tool_guard\<close> turns into status 403; a name inside the set
  passes. Every tool handler calls the guard first, so a denied invocation returns the 403
  and the database it was given: no idempotency record, no pending action, no change to a
  customer or ticket.
\<close>

theorem policy_gate:
  "(tool \<notin> allowed_tools raw \<longrightarrow>
      assert_allowed raw tool = Inl (PermissionError (''Tool not allowed by policy: '' @ tool)) \<and>
      tool_guard raw tool = Inl (HTTPException 403 (''Tool not allowed by policy: '' @ tool))) \<and>
   (tool \<in> allowed_tools raw \<longrightarrow> assert_allowed raw tool = Inr ()) \<and>
   (tool_name c \<notin> allowed_tools (ALLOWED_TOOLS e) \<longrightarrow>
      invoke e c d =
        (Inl (HTTPException 403 (''Tool not allowed by policy: '' @ tool_name c)), d))"
  using invoke_denied [of c e d] tool_guard_denied [of tool raw]
  by (simp add: assert_allowed_def)

theorem policy_gate_witness:
  "''send_message'' \<notin> allowed_tools (ALLOWED_TOOLS example_env) \<and>
   assert_allowed (ALLOWED_TOOLS example_env) ''send_message'' =
     Inl (PermissionError ''Tool not allowed by policy: send_message'') \<and>
   tool_guard (ALLOWED_TOOLS example_env) ''send_message'' =
     Inl (HTTPException 403 ''Tool not allowed by policy: send_message'') \<and>
   ''create_ticket'' \<in> allowed_tools (ALLOWED_TOOLS example_env) \<and>
   assert_allowed (ALLOWED_TOOLS example_env) ''create_ticket'' = Inr () \<and>
   invoke example_env (SendMessage ''#support'' ''hello'') example_db =
     (Inl (HTTPException 403 ''Tool not allowed by policy: send_message''), example_db)"
proof -
  have no: "''send_message'' \<notin> allowed_tools (ALLOWED_TOOLS example_env)"
    by (simp add: example_allowed)
  have yes: "''create_ticket'' \<in> allowed_tools (ALLOWED_TOOLS example_env)"
    by (simp add: example_allowed)
  from no yes
    policy_gate [of "''send_message''" "ALLOWED_TOOLS example_env"
      "SendMessage ''#support'' ''hello''" example_env example_db]
    policy_gate [of "''create_ticket''" "ALLOWED_TOOLS example_env"
      "SendMessage ''#support'' ''hello''" example_env example_db]
  show ?thesis by simp
qed

section \<open>The idempotency store\<close>

lemma store_response_existing:
  "find_record d tool key = Some r \<Longrightarrow>
   store_response e d tool key response = (Inl IntegrityError, d)"
  by (simp add: store_response_def)

lemma find_append:
  "find P (xs @ ys) = (case find P xs of None \<Rightarrow> find P ys | Some x \<Rightarrow> Some x)"
  by (induction xs) auto

lemma store_response_fresh:
  assumes "find_record d tool key = None"
  shows "fst (store_response e d tool key response) = Inr () \<and>
         get_cached_response e (snd (store_response e d tool key response)) tool key =
           (case loads e (dumps e response) of None \<Rightarrow> Inl JSONDecodeError | Some v \<Rightarrow> Inr v)"
  using assms
  by (simp add: store_response_def get_cached_response_def find_record_def find_append Let_def)

text \<open>
  Claim C2. When a record for the pair (tool, key) exists, \<open>store_response\<close> fails on the
  uniqueness constraint, whatever the response offered, and the database is as before: the
  record found for the pair and the cached response read from it are the first ones.
\<close>

theorem store_first_write_wins:
  assumes "find_record d tool key = Some r"
  shows "store_response e d tool key response = (Inl IntegrityError, d) \<and>
         find_record (snd (store_response e d tool key response)) tool key = Some r \<and>
         get_cached_response e (snd (store_response e d tool key response)) tool key =
           get_cached_response e d tool key"
  using assms by (simp add: store_response_existing)

theorem store_first_write_wins_witness:
  "find_record example_db ''create_ticket'' ''k1'' =
     Some \<lparr>ir_id = 1, ir_tool = ''create_ticket'', ir_key = ''k1'',
           ir_response_json = example_response_text,
           ir_created_at = ''2024-05-01T10:00:00''\<rparr> \<and>
   store_response example_env example_db ''create_ticket'' ''k1'' (JObj []) =
     (Inl IntegrityError, example_db)"
proof -
  have found: "find_record example_db ''create_ticket'' ''k1'' =
     Some \<lparr>ir_id = 1, ir_tool = ''create_ticket'', ir_key = ''k1'',
           ir_response_json = example_response_text,
           ir_created_at = ''2024-05-01T10:00:00''\<rparr>"
    by (simp add: find_record_def example_db_def)
  from store_first_write_wins [OF found, of example_env "JObj []"] found
  show ?thesis by simp
qed

text \<open>
  Claim C1. \<open>create_ticket\<close>, allowed by the policy and called with a key that is present
  and not empty, for which a record holding a JSON object exists, returns that object with
  \<open>idempotent_replay\<close> set to true and the database unchanged: no ticket is added and
  every other entry of the stored response is returned as stored.
\<close>

theorem create_ticket_replay:
  assumes "''create_ticket'' \<in> allowed_tools (ALLOWED_TOOLS e)"
    and "truthy idempotency_key"
    and "find_record d ''create_ticket'' (key_text idempotency_key) = Some r"
    and "loads e (ir_response_json r) = Some (JObj kv)"
  shows "get_cached_response e d ''create_ticket'' (key_text idempotency_key) = Inr (JObj kv) \<and>
         create_ticket e payload idempotency_key d =
           (Inr (JObj (AList.update ''idempotent_replay'' (JBool True) kv)), d) \<and>
         length (tickets (snd (create_ticket e payload idempotency_key d))) =
           length (tickets d) \<and>
         map_of (AList.update ''idempotent_replay'' (JBool True) kv) =
           (map_of kv)(''idempotent_replay'' \<mapsto> JBool True)"
  using assms
  by (simp add: create_ticket_def tool_guard_allowed get_cached_response_def dict_with_def
      update_conv')

theorem create_ticket_replay_witness:
  "create_ticket example_env
     \<lparr>ct_customer_id = 1, ct_title = ''Latency'', ct_description = ''Slow pages'',
      ct_priority = ''high''\<rparr>
     (Some ''k1'') example_db =
   (Inr (JObj (example_response @ [(''idempotent_replay'', JBool True)])), example_db)"
proof -
  have allowed: "''create_ticket'' \<in> allowed_tools (ALLOWED_TOOLS example_env)"
    by (simp add: example_allowed)
  have key: "truthy (Some ''k1'')"
    by (simp add: truthy_def key_text_def)
  have found: "find_record example_db ''create_ticket'' (key_text (Some ''k1'')) =
     Some \<lparr>ir_id = 1, ir_tool = ''create_ticket'', ir_key = ''k1'',
           ir_response_json = example_response_text,
           ir_created_at = ''2024-05-01T10:00:00''\<rparr>"
    by (simp add: find_record_def example_db_def key_text_def)
  have decoded: "loads example_env
      (ir_response_json \<lparr>ir_id = 1, ir_tool = ''create_ticket'', ir_key = ''k1'',
           ir_response_json = example_response_text,
           ir_created_at = ''2024-05-01T10:00:00''\<rparr>) = Some (JObj example_response)"
    by (simp add: example_defs)
  from create_ticket_replay [OF allowed key found decoded]
  show ?thesis by (simp add: example_response_def)
qed

section \<open>Rows and lookups\<close>

lemma find_pending_id: "find_pending d i = Some pa \<Longrightarrow> pa_id pa = i"
  by (auto simp: find_pending_def find_Some_iff)

lemma customer_row_id: "customer_row d i = Some c \<Longrightarrow> c_id c = i"
  by (auto simp: customer_row_def find_Some_iff)

lemma find_status_map:
  "find (\<lambda>p. pa_id p = j) (map (\<lambda>p. if pa_id p = i then p\<lparr>pa_status := s\<rparr> else p) xs) =
   map_option (\<lambda>p. if pa_id p = i then p\<lparr>pa_status := s\<rparr> else p) (find (\<lambda>p. pa_id p = j) xs)"
  by (induction xs) auto

lemma find_pending_set_pending_status:
  "find_pending (set_pending_status d i s) j =
   map_option (\<lambda>p. if pa_id p = i then p\<lparr>pa_status := s\<rparr> else p) (find_pending d j)"
  by (simp add: find_pending_def set_pending_status_def find_status_map)

lemma find_pending_set_customer_status [simp]:
  "find_pending (set_customer_status d i s) j = find_pending d j"
  by (simp add: find_pending_def set_customer_status_def)

lemma customers_set_pending_status [simp]:
  "customers (set_pending_status d i s) = customers d"
  by (simp add: set_pending_status_def)

lemma tickets_set_pending_status [simp]:
  "tickets (set_pending_status d i s) = tickets d"
  by (simp add: set_pending_status_def)

lemma records_set_pending_status [simp]:
  "idempotency_records (set_pending_status d i s) = idempotency_records d"
  by (simp add: set_pending_status_def)

lemma customer_row_map:
  "find (\<lambda>c. c_id c = j) (map (\<lambda>c. if c_id c = i then c\<lparr>c_status := s\<rparr> else c) xs) =
   map_option (\<lambda>c. if c_id c = i then c\<lparr>c_status := s\<rparr> else c) (find (\<lambda>c. c_id c = j) xs)"
  by (induction xs) auto

lemma customer_row_set_customer_status:
  "customer_row (set_customer_status d i s) j =
   map_option (\<lambda>c. if c_id c = i then c\<lparr>c_status := s\<rparr> else c) (customer_row d j)"
  by (simp add: customer_row_def set_customer_status_def customer_row_map)

lemma customer_row_set_pending_status [simp]:
  "customer_row (set_pending_status d i s) j = customer_row d j"
  by (simp add: customer_row_def)

section \<open>Resolving a pending action\<close>

lemma confirm_unknown_id:
  "find_pending d i = None \<Longrightarrow>
   confirm_action e i approve d = (Inl (HTTPException 404 ''Pending action not found''), d)"
  by (simp add: confirm_action_def)

lemma confirm_resolved:
  "find_pending d i = Some pa \<Longrightarrow> pa_status pa \<noteq> ''pending'' \<Longrightarrow>
   confirm_action e i approve d =
     (Inl (HTTPException 409 (''Pending action already '' @ pa_status pa)), d)"
  by (simp add: confirm_action_def)

lemma confirm_reject:
  "find_pending d i = Some pa \<Longrightarrow> pa_status pa = ''pending'' \<Longrightarrow>
   confirm_action e i False d =
     (Inr (JObj [(''ok'', JBool True), (''status'', JStr ''rejected'')]),
      set_pending_status d i ''rejected'')"
  by (simp add: confirm_action_def find_pending_id)

lemma confirm_success_status:
  assumes "fst (confirm_action e i approve d) = Inr out"
  shows "map_option pa_status (find_pending d i) = Some ''pending'' \<and>
         map_option pa_status (find_pending (snd (confirm_action e i approve d)) i) =
           Some (if approve then ''confirmed'' else ''rejected'')"
proof (cases "find_pending d i")
  case None
  with assms show ?thesis by (simp add: confirm_action_def)
next
  case (Some pa)
  note found = this
  have pid: "pa_id pa = i" using found by (rule find_pending_id)
  show ?thesis
  proof (cases "pa_status pa = ''pending''")
    case False
    with assms found show ?thesis by (simp add: confirm_action_def)
  next
    case True
    show ?thesis
    proof (cases approve)
      case False
      with found True pid show ?thesis
        by (simp add: confirm_reject find_pending_set_pending_status)
    next
      case approve: True
      with assms found True pid show ?thesis
        by (auto simp: confirm_action_def find_pending_set_pending_status
            split: option.splits sum.splits if_splits)
    qed
  qed
qed

lemma confirm_twice:
  assumes "find_pending d i \<noteq> None"
    and "map_option pa_status (find_pending (snd (confirm_action e i approve d)) i) \<noteq> Some ''pending''"
  shows "\<exists>s. s \<noteq> ''pending'' \<and>
           confirm_action e2 i approve2 (snd (confirm_action e i approve d)) =
           (Inl (HTTPException 409 (''Pending action already '' @ s)),
            snd (confirm_action e i approve d))"
proof -
  let ?d1 = "snd (confirm_action e i approve d)"
  have "find_pending ?d1 i \<noteq> None"
    using assms(1)
    by (auto simp: confirm_action_def find_pending_set_pending_status
        split: option.splits sum.splits if_splits)
  then obtain pa1 where f1: "find_pending ?d1 i = Some pa1" by auto
  with assms(2) have "pa_status pa1 \<noteq> ''pending''" by simp
  with f1 show ?thesis using confirm_resolved [of ?d1 i pa1 e2 approve2] by blast
qed

lemma confirm_settles:
  assumes "find_pending d i = Some pa" and "pa_status pa = ''pending''"
    and "payload_ok (loads e) pa"
  shows "map_option pa_status (find_pending (snd (confirm_action e i approve d)) i) =
           Some ''confirmed'' \<or>
         map_option pa_status (find_pending (snd (confirm_action e i approve d)) i) =
           Some ''rejected''"
proof -
  have pid: "pa_id pa = i" using assms(1) by (rule find_pending_id)
  show ?thesis
    using assms pid
    by (auto simp: confirm_action_def payload_ok_def find_pending_set_pending_status
        customer_by_value_def find_customer_def strip_value_def
        split: option.splits sum.splits if_splits json.splits)
qed

lemma confirm_second_fails:
  assumes "\<forall>pa. find_pending d i = Some pa \<longrightarrow> payload_ok (loads e) pa"
  shows "\<exists>err. confirm_action e2 i approve2 (snd (confirm_action e i approve d)) =
           (Inl err, snd (confirm_action e i approve d))"
proof (cases "find_pending d i")
  case None
  then show ?thesis by (simp add: confirm_unknown_id)
next
  case (Some pa)
  show ?thesis
  proof (cases "pa_status pa = ''pending''")
    case False
    with Some show ?thesis by (simp add: confirm_resolved)
  next
    case True
    from Some assms have "payload_ok (loads e) pa" by simp
    from confirm_settles [OF Some True this, of approve]
    have "map_option pa_status (find_pending (snd (confirm_action e i approve d)) i)
            \<noteq> Some ''pending''"
      by auto
    with confirm_twice [of d i e approve e2 approve2] Some show ?thesis by auto
  qed
qed

lemma pending_create_ticket_execute:
  "pending_actions (snd (create_ticket_execute e p k d)) = pending_actions d"
  by (simp add: create_ticket_execute_def store_response_def Let_def
      split: option.splits sum.splits)

lemma pending_create_ticket:
  "pending_actions (snd (create_ticket e p k d)) = pending_actions d"
  by (simp add: create_ticket_def pending_create_ticket_execute split: sum.splits)

lemma terminal_confirm:
  assumes "find_pending d i = Some pa" and "pa_status pa \<noteq> ''pending''"
  shows "find_pending (snd (confirm_action e j approve d)) i = Some pa"
proof (cases "j = i")
  case True
  with assms show ?thesis by (simp add: confirm_resolved)
next
  case False
  have pid: "pa_id pa = i" using assms(1) by (rule find_pending_id)
  have upd: "find_pending (set_pending_status d' j s) i = Some pa"
    if "find_pending d' i = Some pa" for d' s
    using that pid False by (simp add: find_pending_set_pending_status)
  show ?thesis
  proof (cases "find_pending d j")
    case None
    with assms show ?thesis by (simp add: confirm_unknown_id)
  next
    case (Some pb)
    have "pa_id pb = j" using Some by (rule find_pending_id)
    with Some assms(1) upd show ?thesis
      by (auto simp: confirm_action_def split: option.splits sum.splits)
  qed
qed

lemma terminal_update_customer_status:
  assumes "find_pending d i = Some pa"
  shows "find_pending (snd (update_customer_status e p d)) i = Some pa"
  using assms
  by (auto simp: update_customer_status_def add_pending_def Let_def find_pending_def find_append
      set_customer_status_def
      split: option.splits sum.splits)

lemma terminal_handle:
  assumes "find_pending d i = Some pa" and "pa_status pa \<noteq> ''pending''"
  shows "find_pending (snd (handle e r d)) i = Some pa"
proof (cases r)
  case (Tool c)
  show ?thesis
  proof (cases c)
    case (SearchCustomer q)
    with Tool assms show ?thesis by (simp add: search_customer_def split: sum.splits)
  next
    case (CreateTicket p k)
    with Tool assms show ?thesis by (simp add: find_pending_def pending_create_ticket)
  next
    case (UpdateCustomerStatus p)
    with Tool assms show ?thesis by (simp add: terminal_update_customer_status)
  next
    case (SendMessage ch m)
    with Tool assms show ?thesis by simp
  next
    case (GetIncidentImpact x)
    with Tool assms show ?thesis by (simp add: get_incident_impact_def split: sum.splits)
  qed
next
  case (Confirm j approve)
  with assms show ?thesis by (simp add: terminal_confirm)
qed

lemma serve_cases:
  "serve e r d = handle e r d \<or> serve e r d = handle e r (seed_if_empty d)"
  by (induction e r d rule: serve.induct) simp_all

lemma find_pending_seed [simp]: "find_pending (seed_if_empty d) i = find_pending d i"
  by (simp add: find_pending_def seed_if_empty_def)

lemma terminal_serve:
  assumes "find_pending d i = Some pa" and "pa_status pa \<noteq> ''pending''"
  shows "find_pending (snd (serve e r d)) i = Some pa"
proof -
  from assms have "find_pending (seed_if_empty d) i = Some pa" by simp
  from terminal_handle [OF this assms(2)] terminal_handle [OF assms]
  show ?thesis using serve_cases [of e r d] by auto
qed

lemma terminal_run:
  "find_pending d i = Some pa \<Longrightarrow> pa_status pa \<noteq> ''pending'' \<Longrightarrow>
   find_pending (run rs d) i = Some pa"
proof (induction rs arbitrary: d)
  case Nil
  then show ?case by simp
next
  case (Cons x rs)
  obtain e r where x: "x = (e, r)" by (cases x)
  from Cons.prems have "find_pending (snd (serve e r d)) i = Some pa"
    by (rule terminal_serve)
  with Cons.IH Cons.prems(2) x show ?case by simp
qed

lemma payload_ok_status [simp]: "payload_ok l (pa\<lparr>pa_status := s\<rparr>) = payload_ok l pa"
  by (cases "l (pa_payload_json pa)") (simp_all add: payload_ok_def)

lemma payload_ok_set_pending_status:
  "\<forall>pa\<in>set (pending_actions d). payload_ok l pa \<Longrightarrow>
   \<forall>pa\<in>set (pending_actions (set_pending_status d i s)). payload_ok l pa"
  by (auto simp: set_pending_status_def)

lemma pending_set_customer_status [simp]:
  "pending_actions (set_customer_status d i s) = pending_actions d"
  by (simp add: set_customer_status_def)

lemma payload_ok_model_dump:
  "l (dumps e (model_dump p)) = Some (model_dump p) \<Longrightarrow> bindable (ucs_customer_id p) \<Longrightarrow>
   payload_ok l \<lparr>pa_id = i, pa_action_type = ''update_customer_status'',
                  pa_payload_json = dumps e (model_dump p), pa_status = s,
                  pa_created_at = t\<rparr>"
  by (simp add: payload_ok_def model_dump_def subscript_def)

lemma payload_ok_confirm:
  assumes "\<forall>pa\<in>set (pending_actions d). payload_ok l pa"
  shows "\<forall>pa\<in>set (pending_actions (snd (confirm_action e i approve d))). payload_ok l pa"
proof -
  have "pending_actions (snd (confirm_action e i approve d)) = pending_actions d \<or>
        (\<exists>s. pending_actions (snd (confirm_action e i approve d)) =
              pending_actions (set_pending_status d i s))"
    by (auto simp: confirm_action_def set_pending_status_def
        split: option.splits sum.splits dest: find_pending_id)
  with assms payload_ok_set_pending_status [OF assms] show ?thesis by auto
qed

lemma payload_ok_update_customer_status:
  assumes "\<forall>pa\<in>set (pending_actions d). payload_ok l pa"
    and "l (dumps e (model_dump p)) = Some (model_dump p)"
  shows "\<forall>pa\<in>set (pending_actions (snd (update_customer_status e p d))). payload_ok l pa"
  using assms payload_ok_model_dump [where l = l and e = e and p = p]
  by (auto simp: update_customer_status_def add_pending_def Let_def
      split: option.splits sum.splits dest: find_customer_found)

lemma payload_ok_handle:
  assumes "\<forall>pa\<in>set (pending_actions d). payload_ok l pa"
    and "reads_back l (e, r)"
  shows "\<forall>pa\<in>set (pending_actions (snd (handle e r d))). payload_ok l pa"
proof (cases r)
  case (Tool c)
  show ?thesis
  proof (cases c)
    case (SearchCustomer q)
    with Tool assms show ?thesis by (simp add: search_customer_def split: sum.splits)
  next
    case (CreateTicket p k)
    with Tool assms show ?thesis by (simp add: pending_create_ticket)
  next
    case (UpdateCustomerStatus p)
    with Tool assms payload_ok_update_customer_status [of d l e p] show ?thesis by simp
  next
    case (SendMessage ch m)
    with Tool assms show ?thesis by simp
  next
    case (GetIncidentImpact x)
    with Tool assms show ?thesis by (simp add: get_incident_impact_def split: sum.splits)
  qed
next
  case (Confirm j approve)
  with payload_ok_confirm [OF assms(1)] show ?thesis by simp
qed

lemma payload_ok_serve:
  assumes "\<forall>pa\<in>set (pending_actions d). payload_ok l pa"
    and "reads_back l (e, r)"
  shows "\<forall>pa\<in>set (pending_actions (snd (serve e r d))). payload_ok l pa"
proof -
  from assms(1) have "\<forall>pa\<in>set (pending_actions (seed_if_empty d)). payload_ok l pa"
    by (simp add: seed_if_empty_frame)
  from payload_ok_handle [OF this assms(2)] payload_ok_handle [OF assms]
  show ?thesis using serve_cases [of e r d] by auto
qed

lemma payload_ok_run:
  assumes "\<forall>pa\<in>set (pending_actions d). payload_ok l pa"
    and "list_all (reads_back l) rs"
  shows "\<forall>pa\<in>set (pending_actions (run rs d)). payload_ok l pa"
  using assms
proof (induction rs arbitrary: d)
  case Nil
  then show ?case by simp
next
  case (Cons x rs)
  obtain e r where x: "x = (e, r)" by (cases x)
  from Cons.prems x have "reads_back l (e, r)" by simp
  from payload_ok_serve [OF Cons.prems(1) this]
  have "\<forall>pa\<in>set (pending_actions (snd (serve e r d))). payload_ok l pa" .
  moreover from Cons.prems(2) have "list_all (reads_back l) rs" by simp
  ultimately show ?case using Cons.IH x by simp
qed

lemma find_pending_mem: "find_pending d i = Some pa \<Longrightarrow> pa \<in> set (pending_actions d)"
  by (auto simp: find_pending_def find_Some_iff)

lemma confirm_second_code:
  assumes "\<forall>pa. find_pending d i = Some pa \<longrightarrow> payload_ok (loads e) pa"
  shows "\<exists>err. confirm_action e2 i approve2 (snd (confirm_action e i approve d)) =
           (Inl err, snd (confirm_action e i approve d)) \<and>
           status_code err = (if find_pending d i = None then 404 else 409)"
proof (cases "find_pending d i")
  case None
  then show ?thesis by (simp add: confirm_unknown_id)
next
  case (Some pa)
  show ?thesis
  proof (cases "pa_status pa = ''pending''")
    case False
    with Some show ?thesis by (simp add: confirm_resolved)
  next
    case True
    from Some assms have "payload_ok (loads e) pa" by simp
    from confirm_settles [OF Some True this, of approve]
    have "map_option pa_status (find_pending (snd (confirm_action e i approve d)) i)
            \<noteq> Some ''pending''"
      by auto
    with confirm_twice [of d i e approve e2 approve2] Some show ?thesis by auto
  qed
qed

text \<open>
  Claim C3. The status of a pending action moves one way. A resolve on a record that is not
  \<open>pending\<close> fails with status 409 and changes nothing, and no sequence of requests
  changes such a record; a resolve that succeeds found the record \<open>pending\<close> and leaves
  it \<open>confirmed\<close> or \<open>rejected\<close> as the flag says; once a resolve has taken a record
  out of \<open>pending\<close>, the next resolve on the identifier fails with 409 and changes
  nothing; and in a database built by requests from one without pending actions, with a
  codec that reads back what was stored, the second of two resolves on an identifier always
  fails (409, or 404 when the identifier is unknown) and changes nothing.
\<close>

theorem pending_action_one_way:
  "(find_pending d i = Some pa \<and> pa_status pa \<noteq> ''pending'' \<longrightarrow>
      confirm_action e i approve d =
        (Inl (HTTPException 409 (''Pending action already '' @ pa_status pa)), d) \<and>
      find_pending (run rs d) i = Some pa) \<and>
   (fst (confirm_action e i approve d) = Inr out \<longrightarrow>
      map_option pa_status (find_pending d i) = Some ''pending'' \<and>
      map_option pa_status (find_pending (snd (confirm_action e i approve d)) i) =
        Some (if approve then ''confirmed'' else ''rejected'')) \<and>
   (find_pending d i \<noteq> None \<and>
    map_option pa_status (find_pending (snd (confirm_action e i approve d)) i) \<noteq>
      Some ''pending'' \<longrightarrow>
      (\<exists>s. s \<noteq> ''pending'' \<and>
           confirm_action e2 i approve2 (snd (confirm_action e i approve d)) =
             (Inl (HTTPException 409 (''Pending action already '' @ s)),
              snd (confirm_action e i approve d)))) \<and>
   (pending_actions d0 = [] \<and> d = run rs0 d0 \<and>
    list_all (reads_back (loads e)) rs0 \<longrightarrow>
      (\<exists>err. confirm_action e2 i approve2 (snd (confirm_action e i approve d)) =
              (Inl err, snd (confirm_action e i approve d)) \<and>
            status_code err = (if find_pending d i = None then 404 else 409)))"
proof (intro conjI impI)
  assume a: "find_pending d i = Some pa \<and> pa_status pa \<noteq> ''pending''"
  then show "confirm_action e i approve d =
        (Inl (HTTPException 409 (''Pending action already '' @ pa_status pa)), d)"
    by (simp add: confirm_resolved)
  from a show "find_pending (run rs d) i = Some pa"
    by (simp add: terminal_run)
next
  assume "fst (confirm_action e i approve d) = Inr out"
  from confirm_success_status [OF this]
  show "map_option pa_status (find_pending d i) = Some ''pending''"
    and "map_option pa_status (find_pending (snd (confirm_action e i approve d)) i) =
        Some (if approve then ''confirmed'' else ''rejected'')"
    by simp_all
next
  assume "find_pending d i \<noteq> None \<and>
    map_option pa_status (find_pending (snd (confirm_action e i approve d)) i) \<noteq>
      Some ''pending''"
  then show "\<exists>s. s \<noteq> ''pending'' \<and>
           confirm_action e2 i approve2 (snd (confirm_action e i approve d)) =
             (Inl (HTTPException 409 (''Pending action already '' @ s)),
              snd (confirm_action e i approve d))"
    using confirm_twice [of d i e approve e2 approve2] by simp
next
  assume r: "pending_actions d0 = [] \<and> d = run rs0 d0 \<and>
    list_all (reads_back (loads e)) rs0"
  then have "\<forall>pa\<in>set (pending_actions d0). payload_ok (loads e) pa" by simp
  from payload_ok_run [OF this, of rs0] r
  have "\<forall>pa\<in>set (pending_actions d). payload_ok (loads e) pa" by simp
  then have "\<forall>pa. find_pending d i = Some pa \<longrightarrow> payload_ok (loads e) pa"
    by (auto dest: find_pending_mem)
  from confirm_second_code [OF this]
  show "\<exists>err. confirm_action e2 i approve2 (snd (confirm_action e i approve d)) =
              (Inl err, snd (confirm_action e i approve d)) \<and>
            status_code err = (if find_pending d i = None then 404 else 409)" .
qed

lemma example_done:
  "find_pending example_db done_id =
     Some \<lparr>pa_id = done_id, pa_action_type = ''update_customer_status'',
           pa_payload_json = example_status_text, pa_status = ''confirmed'',
           pa_created_at = ''2024-05-01T10:02:00''\<rparr>"
  by (simp add: find_pending_def example_db_def)

lemma example_open:
  "find_pending example_db open_id =
     Some \<lparr>pa_id = open_id, pa_action_type = ''update_customer_status'',
           pa_payload_json = example_status_text, pa_status = ''pending'',
           pa_created_at = ''2024-05-01T10:01:00''\<rparr>"
  by (simp add: find_pending_def example_db_def)

lemma example_loads_status:
  "loads example_env example_status_text = Some (model_dump example_status_in)"
  by (simp add: example_env_def example_loads_def)

lemma example_customer_1:
  "customer_row example_db 1 = Some \<lparr>c_id = 1, c_name = ''ACME AB'', c_status = ''Active''\<rparr>"
  by (simp add: customer_row_def example_db_def)

lemma strip_churned: "strip '' Churned '' = ''Churned''"
  by (simp add: strip_def isspace_def)

lemma example_find_customer_1:
  "find_customer example_db 1 =
     Inr (Some \<lparr>c_id = 1, c_name = ''ACME AB'', c_status = ''Active''\<rparr>)"
  by (simp add: find_customer_def bindable_def example_customer_1)

lemma example_approve_open:
  "confirm_action example_env open_id True example_db =
     (Inr (JObj [(''ok'', JBool True), (''status'', JStr ''confirmed''),
                 (''customer'',
                  JObj [(''id'', JInt 1), (''name'', JStr ''ACME AB''),
                        (''status'', JStr ''Churned'')])]),
      set_pending_status (set_customer_status example_db 1 ''Churned'') open_id ''confirmed'')"
  by (simp add: confirm_action_def example_open example_loads_status model_dump_def
      example_status_in_def subscript_def customer_by_value_def example_find_customer_1
      strip_value_def strip_churned customer_json_def)

lemma example_reads_back:
  "list_all (reads_back (loads example_env))
     [(example_env, Tool (UpdateCustomerStatus example_status_in))]"
  by (simp add: example_env_def example_dumps_def example_loads_def)

theorem pending_action_one_way_witness:
  "find_pending example_db done_id =
     Some \<lparr>pa_id = done_id, pa_action_type = ''update_customer_status'',
           pa_payload_json = example_status_text, pa_status = ''confirmed'',
           pa_created_at = ''2024-05-01T10:02:00''\<rparr> \<and>
   confirm_action example_env done_id True example_db =
     (Inl (HTTPException 409 ''Pending action already confirmed''), example_db) \<and>
   find_pending
     (run [(example_env, Confirm done_id False),
           (example_env, Tool (UpdateCustomerStatus example_status_in))] example_db) done_id =
     Some \<lparr>pa_id = done_id, pa_action_type = ''update_customer_status'',
           pa_payload_json = example_status_text, pa_status = ''confirmed'',
           pa_created_at = ''2024-05-01T10:02:00''\<rparr> \<and>
   map_option pa_status (find_pending example_db open_id) = Some ''pending'' \<and>
   map_option pa_status
     (find_pending (snd (confirm_action example_env open_id True example_db)) open_id) =
     Some ''confirmed'' \<and>
   (\<exists>s. s \<noteq> ''pending'' \<and>
     confirm_action example_env open_id False
       (snd (confirm_action example_env open_id True example_db)) =
     (Inl (HTTPException 409 (''Pending action already '' @ s)),
      snd (confirm_action example_env open_id True example_db))) \<and>
   pending_actions (example_db\<lparr>pending_actions := []\<rparr>) = [] \<and>
   list_all (reads_back (loads example_env))
     [(example_env, Tool (UpdateCustomerStatus example_status_in))] \<and>
   (\<exists>err. confirm_action example_env (uuid4_hex example_env) True
       (snd (confirm_action example_env (uuid4_hex example_env) False
          (run [(example_env, Tool (UpdateCustomerStatus example_status_in))]
             (example_db\<lparr>pending_actions := []\<rparr>)))) =
     (Inl err,
      snd (confirm_action example_env (uuid4_hex example_env) False
          (run [(example_env, Tool (UpdateCustomerStatus example_status_in))]
             (example_db\<lparr>pending_actions := []\<rparr>)))) \<and>
     status_code err =
       (if find_pending
            (run [(example_env, Tool (UpdateCustomerStatus example_status_in))]
               (example_db\<lparr>pending_actions := []\<rparr>))
            (uuid4_hex example_env) = None
        then 404 else 409))"
proof -
  let ?done = "\<lparr>pa_id = done_id, pa_action_type = ''update_customer_status'',
           pa_payload_json = example_status_text, pa_status = ''confirmed'',
           pa_created_at = ''2024-05-01T10:02:00''\<rparr>"
  let ?later = "[(example_env, Confirm done_id False),
           (example_env, Tool (UpdateCustomerStatus example_status_in))]"
  let ?first_rs = "[(example_env, Tool (UpdateCustomerStatus example_status_in))]"
  let ?start = "example_db\<lparr>pending_actions := []\<rparr>"
  have terminal: "find_pending example_db done_id = Some ?done \<and> pa_status ?done \<noteq> ''pending''"
    by (simp add: example_done)
  have ok: "fst (confirm_action example_env open_id True example_db) =
      Inr (JObj [(''ok'', JBool True), (''status'', JStr ''confirmed''),
                 (''customer'',
                  JObj [(''id'', JInt 1), (''name'', JStr ''ACME AB''),
                        (''status'', JStr ''Churned'')])])"
    by (simp add: example_approve_open)
  have first: "find_pending example_db open_id \<noteq> None \<and>
      map_option pa_status
        (find_pending (snd (confirm_action example_env open_id True example_db)) open_id) \<noteq>
      Some ''pending''"
    by (simp add: example_approve_open example_open find_pending_set_pending_status)
  have reach: "pending_actions ?start = [] \<and> run ?first_rs ?start = run ?first_rs ?start \<and>
      list_all (reads_back (loads example_env)) ?first_rs"
    using example_reads_back by simp
  have p1: "confirm_action example_env done_id True example_db =
      (Inl (HTTPException 409 ''Pending action already confirmed''), example_db) \<and>
      find_pending (run ?later example_db) done_id = Some ?done"
    using pending_action_one_way [where d = example_db and i = done_id and pa = ?done
        and e = example_env and approve = True and rs = ?later,
        THEN conjunct1, THEN mp, OF terminal]
    by simp
  have p2: "map_option pa_status (find_pending example_db open_id) = Some ''pending'' \<and>
      map_option pa_status
        (find_pending (snd (confirm_action example_env open_id True example_db)) open_id) =
      Some ''confirmed''"
    using pending_action_one_way [where d = example_db and i = open_id
        and e = example_env and approve = True,
        THEN conjunct2, THEN conjunct1, THEN mp, OF ok]
    by simp
  have p3: "\<exists>s. s \<noteq> ''pending'' \<and>
     confirm_action example_env open_id False
       (snd (confirm_action example_env open_id True example_db)) =
     (Inl (HTTPException 409 (''Pending action already '' @ s)),
      snd (confirm_action example_env open_id True example_db))"
    by (rule pending_action_one_way [THEN conjunct2, THEN conjunct2, THEN conjunct1, THEN mp])
       (rule first)
  have p4: "\<exists>err. confirm_action example_env (uuid4_hex example_env) True
       (snd (confirm_action example_env (uuid4_hex example_env) False (run ?first_rs ?start))) =
     (Inl err, snd (confirm_action example_env (uuid4_hex example_env) False (run ?first_rs ?start))) \<and>
     status_code err =
       (if find_pending (run ?first_rs ?start) (uuid4_hex example_env) = None then 404 else 409)"
    by (rule pending_action_one_way [THEN conjunct2, THEN conjunct2, THEN conjunct2, THEN mp])
       (rule reach)
  show ?thesis
    using terminal p1 p2 p3 reach p4 by (elim conjE) (intro conjI; assumption)
qed

section \<open>Rejection\<close>

lemma customers_set_customer_status_other:
  "j \<noteq> i \<Longrightarrow> customer_row (set_customer_status d i s) j = customer_row d j"
proof -
  assume ne: "j \<noteq> i"
  have "map_option (\<lambda>c. if c_id c = i then c\<lparr>c_status := s\<rparr> else c) (customer_row d j) =
        customer_row d j"
  proof (cases "customer_row d j")
    case None
    then show ?thesis by simp
  next
    case (Some c)
    then have "c_id c = j" by (rule customer_row_id)
    with Some ne show ?thesis by simp
  qed
  then show ?thesis by (simp add: customer_row_set_customer_status)
qed

lemma tickets_set_customer_status [simp]:
  "tickets (set_customer_status d i s) = tickets d"
  by (simp add: set_customer_status_def)

lemma records_set_customer_status [simp]:
  "idempotency_records (set_customer_status d i s) = idempotency_records d"
  by (simp add: set_customer_status_def)

text \<open>
  Claim C5. Resolving a \<open>pending\<close> action with \<open>approve = False\<close> returns the rejection
  outcome and marks the action \<open>rejected\<close>; the customers, the tickets and the
  idempotency records are as they were.
\<close>

theorem reject_is_no_op:
  assumes "find_pending d i = Some pa" and "pa_status pa = ''pending''"
  shows "confirm_action e i False d =
           (Inr (JObj [(''ok'', JBool True), (''status'', JStr ''rejected'')]),
            set_pending_status d i ''rejected'') \<and>
         customers (snd (confirm_action e i False d)) = customers d \<and>
         tickets (snd (confirm_action e i False d)) = tickets d \<and>
         idempotency_records (snd (confirm_action e i False d)) = idempotency_records d \<and>
         map_option pa_status (find_pending (snd (confirm_action e i False d)) i) =
           Some ''rejected''"
  using assms find_pending_id [OF assms(1)]
  by (simp add: confirm_reject find_pending_set_pending_status)

section \<open>Gating of \<^verbatim>\<open>update_customer_status\<close>\<close>

lemma find_customer_set_customer_status:
  assumes "find_customer d i = Inr (Some c)"
  shows "find_customer (set_customer_status d i s) i = Inr (Some (c\<lparr>c_status := s\<rparr>))"
proof -
  from assms have b: "bindable i" and row: "customer_row d i = Some c"
    by (simp_all add: find_customer_found)
  from row have "c_id c = i" by (rule customer_row_id)
  with b row show ?thesis
    by (simp add: find_customer_def customer_row_set_customer_status)
qed

lemma find_customer_set_pending_status [simp]:
  "find_customer (set_pending_status d i s) j = find_customer d j"
  by (simp add: find_customer_def)

lemma gated_update_fresh:
  assumes "''update_customer_status'' \<in> allowed_tools (ALLOWED_TOOLS e)"
    and "find_customer d (ucs_customer_id p) = Inr (Some cust)"
    and "\<not> ucs_confirm p"
    and "find_pending d (uuid4_hex e) = None"
  shows "update_customer_status e p d =
           (Inr (JObj [(''requires_confirmation'', JBool True),
                       (''pending_action_id'', JStr (uuid4_hex e)),
                       (''customer'', JNull)]),
            d\<lparr>pending_actions := pending_actions d @
                 [\<lparr>pa_id = uuid4_hex e, pa_action_type = ''update_customer_status'',
                   pa_payload_json = dumps e (model_dump p), pa_status = ''pending'',
                   pa_created_at = utcnow e\<rparr>]\<rparr>)"
  using assms
  by (simp add: update_customer_status_def tool_guard_allowed add_pending_def Let_def)

lemma gated_update_clash:
  assumes "''update_customer_status'' \<in> allowed_tools (ALLOWED_TOOLS e)"
    and "find_customer d (ucs_customer_id p) = Inr (Some cust)"
    and "\<not> ucs_confirm p"
    and "find_pending d (uuid4_hex e) = Some pa"
  shows "update_customer_status e p d = (Inl IntegrityError, d)"
  using assms
  by (simp add: update_customer_status_def tool_guard_allowed add_pending_def Let_def)

text \<open>
  Claim C4. \<open>update_customer_status\<close> without the confirm flag, on an existing customer
  and allowed by the policy, changes no customer, ticket or idempotency record. When the
  identifier drawn is not yet a key of the table, it appends one action with that
  identifier, status \<open>pending\<close> and the dumped payload, and returns
  \<open>requires_confirmation\<close> with the identifier; when the identifier is taken, the primary
  key rejects the row and nothing is written.
\<close>

theorem gated_update_creates_pending:
  assumes "''update_customer_status'' \<in> allowed_tools (ALLOWED_TOOLS e)"
    and "find_customer d (ucs_customer_id p) = Inr (Some cust)"
    and "\<not> ucs_confirm p"
  shows "customers (snd (update_customer_status e p d)) = customers d \<and>
         tickets (snd (update_customer_status e p d)) = tickets d \<and>
         idempotency_records (snd (update_customer_status e p d)) = idempotency_records d \<and>
         (find_pending d (uuid4_hex e) = None \<longrightarrow>
            update_customer_status e p d =
              (Inr (JObj [(''requires_confirmation'', JBool True),
                          (''pending_action_id'', JStr (uuid4_hex e)),
                          (''customer'', JNull)]),
               d\<lparr>pending_actions := pending_actions d @
                    [\<lparr>pa_id = uuid4_hex e, pa_action_type = ''update_customer_status'',
                      pa_payload_json = dumps e (model_dump p), pa_status = ''pending'',
                      pa_created_at = utcnow e\<rparr>]\<rparr>) \<and>
            find_pending (snd (update_customer_status e p d)) (uuid4_hex e) =
              Some \<lparr>pa_id = uuid4_hex e, pa_action_type = ''update_customer_status'',
                    pa_payload_json = dumps e (model_dump p), pa_status = ''pending'',
                    pa_created_at = utcnow e\<rparr>) \<and>
         (find_pending d (uuid4_hex e) \<noteq> None \<longrightarrow>
            update_customer_status e p d = (Inl IntegrityError, d))"
proof (cases "find_pending d (uuid4_hex e)")
  case None
  from gated_update_fresh [OF assms None] None show ?thesis
    by (simp add: find_pending_def find_append)
next
  case (Some pa)
  from gated_update_clash [OF assms Some] Some show ?thesis by simp
qed

text \<open>
  Claim C9. \<open>update_customer_status\<close> with the confirm flag set, on an existing customer
  and allowed by the policy, sets the customer's status to the stripped \<open>new_status\<close>,
  returns \<open>requires_confirmation = False\<close> with the updated customer, and leaves the
  table of pending actions as it was.
\<close>

theorem preconfirmed_update_runs:
  assumes "''update_customer_status'' \<in> allowed_tools (ALLOWED_TOOLS e)"
    and "find_customer d (ucs_customer_id p) = Inr (Some cust)"
    and "ucs_confirm p"
  shows "update_customer_status e p d =
           (Inr (JObj [(''requires_confirmation'', JBool False),
                       (''pending_action_id'', JNull),
                       (''customer'',
                        JObj [(''id'', JInt (ucs_customer_id p)),
                              (''name'', JStr (c_name cust)),
                              (''status'', JStr (strip (ucs_new_status p)))])]),
            set_customer_status d (ucs_customer_id p) (strip (ucs_new_status p))) \<and>
         find_customer (snd (update_customer_status e p d)) (ucs_customer_id p) =
           Inr (Some (cust\<lparr>c_status := strip (ucs_new_status p)\<rparr>)) \<and>
         map_option c_status
           (customer_row (snd (update_customer_status e p d)) (ucs_customer_id p)) =
           Some (strip (ucs_new_status p)) \<and>
         pending_actions (snd (update_customer_status e p d)) = pending_actions d"
proof -
  from assms(2) have row: "customer_row d (ucs_customer_id p) = Some cust"
    by (simp add: find_customer_found)
  then have cid: "c_id cust = ucs_customer_id p" by (rule customer_row_id)
  have r: "update_customer_status e p d =
           (Inr (JObj [(''requires_confirmation'', JBool False),
                       (''pending_action_id'', JNull),
                       (''customer'',
                        JObj [(''id'', JInt (ucs_customer_id p)),
                              (''name'', JStr (c_name cust)),
                              (''status'', JStr (strip (ucs_new_status p)))])]),
            set_customer_status d (ucs_customer_id p) (strip (ucs_new_status p)))"
    using assms cid
    by (simp add: update_customer_status_def tool_guard_allowed Let_def customer_json_def)
  from row cid show ?thesis
    by (simp add: r find_customer_set_customer_status [OF assms(2)]
        customer_row_set_customer_status)
qed

lemma pending_grows_handle:
  assumes "pending_actions (snd (handle e r d)) \<noteq> pending_actions d"
    and "length (pending_actions (snd (handle e r d))) \<noteq> length (pending_actions d)"
  shows "\<exists>p. r = Tool (UpdateCustomerStatus p)"
proof (cases r)
  case (Tool c)
  show ?thesis
  proof (cases c)
    case (SearchCustomer q)
    with Tool assms show ?thesis by (simp add: search_customer_def split: sum.splits)
  next
    case (CreateTicket p k)
    with Tool assms show ?thesis by (simp add: pending_create_ticket)
  next
    case (UpdateCustomerStatus p)
    with Tool show ?thesis by simp
  next
    case (SendMessage ch m)
    with Tool assms show ?thesis by simp
  next
    case (GetIncidentImpact x)
    with Tool assms show ?thesis by (simp add: get_incident_impact_def split: sum.splits)
  qed
next
  case (Confirm j approve)
  have "length (pending_actions (snd (confirm_action e j approve d))) =
        length (pending_actions d)"
    by (auto simp: confirm_action_def set_pending_status_def split: option.splits sum.splits)
  with Confirm assms show ?thesis by simp
qed

lemma update_without_customer:
  assumes "\<forall>cust. find_customer d (ucs_customer_id p) \<noteq> Inr (Some cust)"
  shows "snd (update_customer_status e p d) = d"
  using assms
  by (auto simp: update_customer_status_def split: sum.splits option.splits)

text \<open>
  Claim C10, as amended. \<open>update_customer_status\<close> looks the customer up before the
  confirmation gate. When no customer is found nothing is written, whatever the flag; when
  the identifier is one the driver can bind and no row has it, the call that passed the
  policy fails with status 404. Whenever the call does change the table of pending
  actions, the customer was found and the one row appended carries the dumped payload,
  whose \<open>customer_id\<close> is that customer's; no other request adds a pending action.
\<close>

theorem pending_references_existing_customer:
  "((\<forall>cust. find_customer d (ucs_customer_id p) \<noteq> Inr (Some cust)) \<longrightarrow>
      snd (update_customer_status e p d) = d) \<and>
   (bindable (ucs_customer_id p) \<and> customer_row d (ucs_customer_id p) = None \<and>
    ''update_customer_status'' \<in> allowed_tools (ALLOWED_TOOLS e) \<longrightarrow>
      update_customer_status e p d = (Inl (HTTPException 404 ''Customer not found''), d)) \<and>
   (pending_actions (snd (update_customer_status e p d)) \<noteq> pending_actions d \<longrightarrow>
      (\<exists>cust. find_customer d (ucs_customer_id p) = Inr (Some cust)) \<and>
      pending_actions (snd (update_customer_status e p d)) =
        pending_actions d @
          [\<lparr>pa_id = uuid4_hex e, pa_action_type = ''update_customer_status'',
            pa_payload_json = dumps e (model_dump p), pa_status = ''pending'',
            pa_created_at = utcnow e\<rparr>] \<and>
      subscript (model_dump p) ''customer_id'' = Inr (JInt (ucs_customer_id p))) \<and>
   (length (pending_actions (snd (handle e r d))) \<noteq> length (pending_actions d) \<longrightarrow>
      (\<exists>q. r = Tool (UpdateCustomerStatus q)))"
proof (intro conjI impI)
  assume "\<forall>cust. find_customer d (ucs_customer_id p) \<noteq> Inr (Some cust)"
  then show "snd (update_customer_status e p d) = d"
    by (rule update_without_customer)
next
  assume "bindable (ucs_customer_id p) \<and> customer_row d (ucs_customer_id p) = None \<and>
    ''update_customer_status'' \<in> allowed_tools (ALLOWED_TOOLS e)"
  then show "update_customer_status e p d = (Inl (HTTPException 404 ''Customer not found''), d)"
    by (simp add: update_customer_status_def tool_guard_allowed find_customer_def)
next
  assume ch: "pending_actions (snd (update_customer_status e p d)) \<noteq> pending_actions d"
  show "\<exists>cust. find_customer d (ucs_customer_id p) = Inr (Some cust)"
  proof (rule ccontr)
    assume "\<not> (\<exists>cust. find_customer d (ucs_customer_id p) = Inr (Some cust))"
    then have "\<forall>cust. find_customer d (ucs_customer_id p) \<noteq> Inr (Some cust)" by simp
    from update_without_customer [OF this, of e] ch show False by simp
  qed
  from ch show "pending_actions (snd (update_customer_status e p d)) =
        pending_actions d @
          [\<lparr>pa_id = uuid4_hex e, pa_action_type = ''update_customer_status'',
            pa_payload_json = dumps e (model_dump p), pa_status = ''pending'',
            pa_created_at = utcnow e\<rparr>]"
    by (auto simp: update_customer_status_def add_pending_def Let_def
        split: sum.splits option.splits if_splits)
  show "subscript (model_dump p) ''customer_id'' = Inr (JInt (ucs_customer_id p))"
    by (simp add: subscript_def model_dump_def)
next
  assume len: "length (pending_actions (snd (handle e r d))) \<noteq> length (pending_actions d)"
  then have "pending_actions (snd (handle e r d)) \<noteq> pending_actions d" by auto
  from pending_grows_handle [OF this len] show "\<exists>q. r = Tool (UpdateCustomerStatus q)" .
qed

section \<open>Approval\<close>

lemma example_gone_row:
  "find_pending example_db gone_id =
     Some \<lparr>pa_id = gone_id, pa_action_type = ''update_customer_status'',
           pa_payload_json = example_gone_text, pa_status = ''pending'',
           pa_created_at = ''2024-05-01T10:04:00''\<rparr>"
  by (simp add: find_pending_def example_db_def)

lemma example_odd_row:
  "find_pending example_db odd_id =
     Some \<lparr>pa_id = odd_id, pa_action_type = ''delete_customer'',
           pa_payload_json = ''{}'', pa_status = ''pending'',
           pa_created_at = ''2024-05-01T10:03:00''\<rparr>"
  by (simp add: find_pending_def example_db_def)

lemma example_loads_gone: "loads example_env example_gone_text = Some example_gone"
  by (simp add: example_env_def example_loads_def example_gone_text_def example_status_text_def)

lemma example_loads_empty: "loads example_env ''{}'' = Some (JObj [])"
  by (simp add: example_env_def example_loads_def example_gone_text_def example_status_text_def
      example_response_text_def)

lemma example_customer_9: "customer_row example_db 9 = None"
  by (simp add: customer_row_def example_db_def)

lemma example_find_customer_9: "find_customer example_db 9 = Inr None"
  by (simp add: find_customer_def bindable_def example_customer_9)

lemma example_fresh: "find_pending example_db (uuid4_hex example_env) = None"
  by (simp add: find_pending_def example_db_def example_env_def)

lemma example_update_allowed:
  "''update_customer_status'' \<in> allowed_tools (ALLOWED_TOOLS example_env)"
  by (simp add: example_allowed)

lemma stored_payload_bindable:
  assumes "pending_actions d0 = []" and "d = run rs0 d0"
    and "list_all (reads_back (loads e)) rs0"
    and "find_pending d i = Some pa"
    and "pa_action_type pa = ''update_customer_status''"
    and "loads e (pa_payload_json pa) = Some data"
    and "subscript data ''customer_id'' = Inr (JInt cid)"
  shows "bindable cid \<and> (\<exists>s. subscript data ''new_status'' = Inr (JStr s))"
proof -
  from assms(1) have "\<forall>pa\<in>set (pending_actions d0). payload_ok (loads e) pa" by simp
  from payload_ok_run [OF this assms(3)] assms(2)
  have "\<forall>pa\<in>set (pending_actions d). payload_ok (loads e) pa" by simp
  with find_pending_mem [OF assms(4)] have "payload_ok (loads e) pa" by simp
  with assms(5,6,7) show ?thesis
    by (auto simp: payload_ok_def split: sum.splits json.splits)
qed

text \<open>
  Claim C6, as amended. Approving a \<open>pending\<close> \<open>update_customer_status\<close> action whose
  payload decodes and names customer \<open>cid\<close>: when the lookup finds no such customer, the
  call fails with status 404, the action becomes \<open>rejected\<close> and no customer or ticket
  changes; when the customer exists, its status is set to the stored \<open>new_status\<close> with
  surrounding whitespace stripped, the action becomes \<open>confirmed\<close> and the updated customer
  is returned. In a database built by requests from one without pending actions, with a
  codec that reads back what was stored, the stored \<open>customer_id\<close> is one the driver can
  bind and the stored \<open>new_status\<close> is a string, so one of the two cases applies.
\<close>

theorem approve_update_customer_status:
  assumes "find_pending d i = Some pa" and "pa_status pa = ''pending''"
    and "pa_action_type pa = ''update_customer_status''"
    and "loads e (pa_payload_json pa) = Some data"
    and "subscript data ''customer_id'' = Inr (JInt cid)"
  shows "(find_customer d cid = Inr None \<longrightarrow>
            confirm_action e i True d =
              (Inl (HTTPException 404 ''Customer not found during confirm''),
               set_pending_status d i ''rejected'') \<and>
            map_option pa_status (find_pending (snd (confirm_action e i True d)) i) =
              Some ''rejected'' \<and>
            customers (snd (confirm_action e i True d)) = customers d \<and>
            tickets (snd (confirm_action e i True d)) = tickets d) \<and>
         (find_customer d cid = Inr (Some cust) \<and>
          subscript data ''new_status'' = Inr (JStr s) \<longrightarrow>
            confirm_action e i True d =
              (Inr (JObj [(''ok'', JBool True), (''status'', JStr ''confirmed''),
                          (''customer'',
                           JObj [(''id'', JInt cid), (''name'', JStr (c_name cust)),
                                 (''status'', JStr (strip s))])]),
               set_pending_status (set_customer_status d cid (strip s)) i ''confirmed'') \<and>
            find_customer (snd (confirm_action e i True d)) cid =
              Inr (Some (cust\<lparr>c_status := strip s\<rparr>)) \<and>
            map_option pa_status (find_pending (snd (confirm_action e i True d)) i) =
              Some ''confirmed'') \<and>
         (pending_actions d0 = [] \<and> d = run rs0 d0 \<and> list_all (reads_back (loads e)) rs0 \<longrightarrow>
            bindable cid \<and> (\<exists>t. subscript data ''new_status'' = Inr (JStr t)))"
proof (intro conjI impI)
  have pid: "pa_id pa = i" using assms(1) by (rule find_pending_id)
  {
    assume none: "find_customer d cid = Inr None"
    from assms pid none
    show r: "confirm_action e i True d =
              (Inl (HTTPException 404 ''Customer not found during confirm''),
               set_pending_status d i ''rejected'')"
      by (simp add: confirm_action_def customer_by_value_def)
    from assms(1) pid
    show "map_option pa_status (find_pending (snd (confirm_action e i True d)) i) =
              Some ''rejected''"
      by (simp add: r find_pending_set_pending_status)
    show "customers (snd (confirm_action e i True d)) = customers d"
      and "tickets (snd (confirm_action e i True d)) = tickets d"
      by (simp_all add: r)
  }
  {
    assume some: "find_customer d cid = Inr (Some cust) \<and>
      subscript data ''new_status'' = Inr (JStr s)"
    then have fc: "find_customer d cid = Inr (Some cust)" by simp
    then have "customer_row d cid = Some cust" by (simp add: find_customer_found)
    then have cid: "c_id cust = cid" by (rule customer_row_id)
    from assms pid some cid
    show r: "confirm_action e i True d =
              (Inr (JObj [(''ok'', JBool True), (''status'', JStr ''confirmed''),
                          (''customer'',
                           JObj [(''id'', JInt cid), (''name'', JStr (c_name cust)),
                                 (''status'', JStr (strip s))])]),
               set_pending_status (set_customer_status d cid (strip s)) i ''confirmed'')"
      by (simp add: confirm_action_def customer_by_value_def strip_value_def customer_json_def)
    show "find_customer (snd (confirm_action e i True d)) cid =
              Inr (Some (cust\<lparr>c_status := strip s\<rparr>))"
      by (simp add: r find_customer_set_customer_status [OF fc])
    from assms(1) pid
    show "map_option pa_status (find_pending (snd (confirm_action e i True d)) i) =
              Some ''confirmed''"
      by (simp add: r find_pending_set_pending_status)
  }
  {
    assume reach: "pending_actions d0 = [] \<and> d = run rs0 d0 \<and>
      list_all (reads_back (loads e)) rs0"
    from stored_payload_bindable [of d0 d rs0 e i pa data cid] reach assms
    show "bindable cid" and "\<exists>t. subscript data ''new_status'' = Inr (JStr t)"
      by simp_all
  }
qed

text \<open>
  Claim C7, as amended. Approving a \<open>pending\<close> action whose payload decodes and whose
  action type is not \<open>update_customer_status\<close> marks the action \<open>rejected\<close>, changes no
  customer or ticket, and fails with status 400, which is a client error and not a server
  error.
\<close>

theorem approve_unknown_action_type:
  assumes "find_pending d i = Some pa" and "pa_status pa = ''pending''"
    and "pa_action_type pa \<noteq> ''update_customer_status''"
    and "loads e (pa_payload_json pa) = Some data"
  shows "confirm_action e i True d =
           (Inl (HTTPException 400 (''Unknown action_type: '' @ pa_action_type pa)),
            set_pending_status d i ''rejected'') \<and>
         map_option pa_status (find_pending (snd (confirm_action e i True d)) i) =
           Some ''rejected'' \<and>
         customers (snd (confirm_action e i True d)) = customers d \<and>
         tickets (snd (confirm_action e i True d)) = tickets d \<and>
         status_code (HTTPException 400 (''Unknown action_type: '' @ pa_action_type pa)) = 400 \<and>
         \<not> is_server_error (HTTPException 400 (''Unknown action_type: '' @ pa_action_type pa))"
  using assms find_pending_id [OF assms(1)]
  by (simp add: confirm_action_def find_pending_set_pending_status is_server_error_def)

lemma approve_undecodable:
  assumes "find_pending d i = Some pa" and "pa_status pa = ''pending''"
    and "loads e (pa_payload_json pa) = None"
  shows "confirm_action e i True d = (Inl JSONDecodeError, d)"
  using assms by (simp add: confirm_action_def)

section \<open>The worked example, request by request\<close>

theorem reject_is_no_op_witness:
  "find_pending example_db open_id =
     Some \<lparr>pa_id = open_id, pa_action_type = ''update_customer_status'',
           pa_payload_json = example_status_text, pa_status = ''pending'',
           pa_created_at = ''2024-05-01T10:01:00''\<rparr> \<and>
   confirm_action example_env open_id False example_db =
     (Inr (JObj [(''ok'', JBool True), (''status'', JStr ''rejected'')]),
      set_pending_status example_db open_id ''rejected'') \<and>
   customers (snd (confirm_action example_env open_id False example_db)) =
     customers example_db \<and>
   map_option pa_status
     (find_pending (snd (confirm_action example_env open_id False example_db)) open_id) =
     Some ''rejected''"
proof -
  have st: "pa_status \<lparr>pa_id = open_id, pa_action_type = ''update_customer_status'',
           pa_payload_json = example_status_text, pa_status = ''pending'',
           pa_created_at = ''2024-05-01T10:01:00''\<rparr> = ''pending''"
    by simp
  from reject_is_no_op [OF example_open st, of example_env] example_open
  show ?thesis by (elim conjE) (intro conjI; assumption)
qed

lemma find_customer_same_customers:
  "customers d2 = customers d \<Longrightarrow> find_customer d2 i = find_customer d i"
  by (simp add: find_customer_def customer_row_def)

lemma example_status_customer:
  "find_customer example_db (ucs_customer_id example_status_in) =
     Inr (Some \<lparr>c_id = 1, c_name = ''ACME AB'', c_status = ''Active''\<rparr>)"
  by (simp add: example_status_in_def example_find_customer_1)

lemma example_status_unconfirmed: "\<not> ucs_confirm example_status_in"
  by (simp add: example_status_in_def)

theorem gated_update_creates_pending_witness:
  "find_pending example_db (uuid4_hex example_env) = None \<and>
   update_customer_status example_env example_status_in example_db =
     (Inr (JObj [(''requires_confirmation'', JBool True),
                 (''pending_action_id'', JStr (uuid4_hex example_env)),
                 (''customer'', JNull)]),
      example_db\<lparr>pending_actions := pending_actions example_db @
           [\<lparr>pa_id = uuid4_hex example_env, pa_action_type = ''update_customer_status'',
             pa_payload_json = dumps example_env (model_dump example_status_in),
             pa_status = ''pending'', pa_created_at = utcnow example_env\<rparr>]\<rparr>) \<and>
   customers (snd (update_customer_status example_env example_status_in example_db)) =
     customers example_db \<and>
   find_pending (snd (update_customer_status example_env example_status_in example_db))
     (uuid4_hex example_env) \<noteq> None \<and>
   update_customer_status example_env example_status_in
     (snd (update_customer_status example_env example_status_in example_db)) =
     (Inl IntegrityError, snd (update_customer_status example_env example_status_in example_db))"
proof -
  let ?next = "snd (update_customer_status example_env example_status_in example_db)"
  note first = gated_update_creates_pending
    [OF example_update_allowed example_status_customer example_status_unconfirmed]
  from first have c: "customers ?next = customers example_db"
    by (rule conjunct1)
  from first example_fresh
  have ab: "update_customer_status example_env example_status_in example_db =
     (Inr (JObj [(''requires_confirmation'', JBool True),
                 (''pending_action_id'', JStr (uuid4_hex example_env)),
                 (''customer'', JNull)]),
      example_db\<lparr>pending_actions := pending_actions example_db @
           [\<lparr>pa_id = uuid4_hex example_env, pa_action_type = ''update_customer_status'',
             pa_payload_json = dumps example_env (model_dump example_status_in),
             pa_status = ''pending'', pa_created_at = utcnow example_env\<rparr>]\<rparr>) \<and>
     find_pending ?next (uuid4_hex example_env) =
       Some \<lparr>pa_id = uuid4_hex example_env, pa_action_type = ''update_customer_status'',
             pa_payload_json = dumps example_env (model_dump example_status_in),
             pa_status = ''pending'', pa_created_at = utcnow example_env\<rparr>"
    by blast
  then have a: "update_customer_status example_env example_status_in example_db =
     (Inr (JObj [(''requires_confirmation'', JBool True),
                 (''pending_action_id'', JStr (uuid4_hex example_env)),
                 (''customer'', JNull)]),
      example_db\<lparr>pending_actions := pending_actions example_db @
           [\<lparr>pa_id = uuid4_hex example_env, pa_action_type = ''update_customer_status'',
             pa_payload_json = dumps example_env (model_dump example_status_in),
             pa_status = ''pending'', pa_created_at = utcnow example_env\<rparr>]\<rparr>)"
    by (rule conjunct1)
  from ab have b: "find_pending ?next (uuid4_hex example_env) \<noteq> None"
    by (elim conjE) (rule notI, simp only: option.distinct)
  have cust: "find_customer ?next (ucs_customer_id example_status_in) =
     Inr (Some \<lparr>c_id = 1, c_name = ''ACME AB'', c_status = ''Active''\<rparr>)"
    using example_status_customer find_customer_same_customers [OF c] by simp
  from gated_update_creates_pending
    [OF example_update_allowed cust example_status_unconfirmed] b
  have d: "update_customer_status example_env example_status_in ?next =
      (Inl IntegrityError, ?next)"
    by blast
  from example_fresh a c b d show ?thesis by (intro conjI)
qed

lemma strip_paused: "strip '' Paused '' = ''Paused''"
  by (simp add: strip_def isspace_def)

theorem preconfirmed_update_runs_witness:
  "update_customer_status example_env
     \<lparr>ucs_customer_id = 1, ucs_new_status = '' Paused '', ucs_confirm = True\<rparr> example_db =
     (Inr (JObj [(''requires_confirmation'', JBool False),
                 (''pending_action_id'', JNull),
                 (''customer'',
                  JObj [(''id'', JInt 1), (''name'', JStr ''ACME AB''),
                        (''status'', JStr ''Paused'')])]),
      set_customer_status example_db 1 ''Paused'') \<and>
   pending_actions
     (snd (update_customer_status example_env
        \<lparr>ucs_customer_id = 1, ucs_new_status = '' Paused '', ucs_confirm = True\<rparr> example_db)) =
     pending_actions example_db"
proof -
  let ?p = "\<lparr>ucs_customer_id = 1, ucs_new_status = '' Paused '', ucs_confirm = True\<rparr>"
  have cust: "find_customer example_db (ucs_customer_id ?p) =
      Inr (Some \<lparr>c_id = 1, c_name = ''ACME AB'', c_status = ''Active''\<rparr>)"
    by (simp add: example_find_customer_1)
  have flag: "ucs_confirm ?p" by simp
  from preconfirmed_update_runs [OF example_update_allowed cust flag]
  show ?thesis by (simp add: strip_paused)
qed

theorem pending_references_existing_customer_witness:
  "find_customer example_db 9 = Inr None \<and> bindable 9 \<and> customer_row example_db 9 = None \<and>
   update_customer_status example_env
     \<lparr>ucs_customer_id = 9, ucs_new_status = ''Paused'', ucs_confirm = False\<rparr> example_db =
     (Inl (HTTPException 404 ''Customer not found''), example_db) \<and>
   pending_actions (snd (update_customer_status example_env example_status_in example_db)) \<noteq>
     pending_actions example_db \<and>
   (\<exists>cust. find_customer example_db (ucs_customer_id example_status_in) = Inr (Some cust)) \<and>
   length (pending_actions
     (snd (handle example_env (Tool (UpdateCustomerStatus example_status_in)) example_db))) \<noteq>
     length (pending_actions example_db)"
proof -
  let ?gone = "\<lparr>ucs_customer_id = 9, ucs_new_status = ''Paused'', ucs_confirm = False\<rparr>"
  have none: "\<forall>cust. find_customer example_db (ucs_customer_id ?gone) \<noteq> Inr (Some cust)"
    by (simp add: example_find_customer_9)
  have absent: "bindable (ucs_customer_id ?gone) \<and>
      customer_row example_db (ucs_customer_id ?gone) = None \<and>
      ''update_customer_status'' \<in> allowed_tools (ALLOWED_TOOLS example_env)"
    by (simp add: example_customer_9 example_update_allowed bindable_def)
  note inst = pending_references_existing_customer [of example_db ?gone example_env]
  from inst none have same: "snd (update_customer_status example_env ?gone example_db) = example_db"
    by blast
  from inst absent
  have a: "update_customer_status example_env ?gone example_db =
      (Inl (HTTPException 404 ''Customer not found''), example_db)"
    by blast
  have run: "update_customer_status example_env example_status_in example_db =
      (Inr (JObj [(''requires_confirmation'', JBool True),
                  (''pending_action_id'', JStr (uuid4_hex example_env)),
                  (''customer'', JNull)]),
       example_db\<lparr>pending_actions := pending_actions example_db @
            [\<lparr>pa_id = uuid4_hex example_env, pa_action_type = ''update_customer_status'',
              pa_payload_json = dumps example_env (model_dump example_status_in),
              pa_status = ''pending'', pa_created_at = utcnow example_env\<rparr>]\<rparr>)"
    by (rule gated_update_fresh
        [OF example_update_allowed example_status_customer example_status_unconfirmed
          example_fresh])
  have changed: "pending_actions
      (snd (update_customer_status example_env example_status_in example_db)) \<noteq>
      pending_actions example_db"
    by (simp add: run)
  have longer: "length (pending_actions
      (snd (handle example_env (Tool (UpdateCustomerStatus example_status_in)) example_db))) \<noteq>
      length (pending_actions example_db)"
    by (simp add: run)
  from pending_references_existing_customer [of example_db example_status_in example_env]
    changed
  have b: "\<exists>cust. find_customer example_db (ucs_customer_id example_status_in) =
      Inr (Some cust)"
    by blast
  from example_find_customer_9 absent a changed b longer show ?thesis by simp
qed

lemma example_find_customer_big:
  "find_customer example_db 9223372036854775808 = Inl OverflowError"
  by (simp add: find_customer_def bindable_def)

text \<open>
  Claim C10 as stated fails on the status for an identifier the driver cannot bind: no
  customer has the key \<open>2 ^ 63\<close>, and the call is answered with the uncaught
  \<^verbatim>\<open>OverflowError\<close>, status 500, where the claim has 404. Nothing is written.
\<close>

theorem absent_customer_404_counterexample:
  "customer_row example_db 9223372036854775808 = None \<and>
   update_customer_status example_env
     \<lparr>ucs_customer_id = 9223372036854775808, ucs_new_status = ''Paused'',
      ucs_confirm = False\<rparr> example_db =
     (Inl OverflowError, example_db) \<and>
   status_code OverflowError = 500 \<and>
   update_customer_status example_env
     \<lparr>ucs_customer_id = 9223372036854775808, ucs_new_status = ''Paused'',
      ucs_confirm = False\<rparr> example_db \<noteq>
     (Inl (HTTPException 404 ''Customer not found''), example_db)"
proof -
  have "customer_row example_db 9223372036854775808 = None"
    by (simp add: customer_row_def example_db_def)
  moreover have "update_customer_status example_env
     \<lparr>ucs_customer_id = 9223372036854775808, ucs_new_status = ''Paused'',
      ucs_confirm = False\<rparr> example_db =
     (Inl OverflowError, example_db)"
    by (simp add: update_customer_status_def tool_guard_allowed example_update_allowed
        example_find_customer_big)
  ultimately show ?thesis by simp
qed

lemma example_start_run:
  "run [(example_env, Tool (UpdateCustomerStatus example_status_in))]
     (example_db\<lparr>pending_actions := []\<rparr>) =
   example_db\<lparr>pending_actions :=
     [\<lparr>pa_id = uuid4_hex example_env, pa_action_type = ''update_customer_status'',
       pa_payload_json = dumps example_env (model_dump example_status_in),
       pa_status = ''pending'', pa_created_at = utcnow example_env\<rparr>]\<rparr>"
proof -
  let ?start = "example_db\<lparr>pending_actions := []\<rparr>"
  have same: "customers ?start = customers example_db" by simp
  have seed: "seed_if_empty ?start = ?start"
    by (rule seed_if_empty_idle) (simp add: example_db_def)
  have cust: "find_customer ?start (ucs_customer_id example_status_in) =
     Inr (Some \<lparr>c_id = 1, c_name = ''ACME AB'', c_status = ''Active''\<rparr>)"
    using example_status_customer find_customer_same_customers [OF same] by simp
  have fresh: "find_pending ?start (uuid4_hex example_env) = None"
    by (simp add: find_pending_def)
  from gated_update_fresh [OF example_update_allowed cust example_status_unconfirmed fresh]
  show ?thesis by (simp add: seed)
qed

lemma example_dumps_status:
  "dumps example_env (model_dump example_status_in) = example_status_text"
  by (simp add: example_env_def example_dumps_def)

theorem approve_update_customer_status_witness:
  "find_pending example_db gone_id =
     Some \<lparr>pa_id = gone_id, pa_action_type = ''update_customer_status'',
           pa_payload_json = example_gone_text, pa_status = ''pending'',
           pa_created_at = ''2024-05-01T10:04:00''\<rparr> \<and>
   find_customer example_db 9 = Inr None \<and>
   confirm_action example_env gone_id True example_db =
     (Inl (HTTPException 404 ''Customer not found during confirm''),
      set_pending_status example_db gone_id ''rejected'') \<and>
   customers (snd (confirm_action example_env gone_id True example_db)) = customers example_db \<and>
   find_customer example_db 1 =
     Inr (Some \<lparr>c_id = 1, c_name = ''ACME AB'', c_status = ''Active''\<rparr>) \<and>
   confirm_action example_env open_id True example_db =
     (Inr (JObj [(''ok'', JBool True), (''status'', JStr ''confirmed''),
                 (''customer'',
                  JObj [(''id'', JInt 1), (''name'', JStr ''ACME AB''),
                        (''status'', JStr ''Churned'')])]),
      set_pending_status (set_customer_status example_db 1 ''Churned'') open_id ''confirmed'') \<and>
   pending_actions (example_db\<lparr>pending_actions := []\<rparr>) = [] \<and>
   list_all (reads_back (loads example_env))
     [(example_env, Tool (UpdateCustomerStatus example_status_in))] \<and>
   bindable 1"
proof -
  let ?gone = "\<lparr>pa_id = gone_id, pa_action_type = ''update_customer_status'',
           pa_payload_json = example_gone_text, pa_status = ''pending'',
           pa_created_at = ''2024-05-01T10:04:00''\<rparr>"
  let ?open = "\<lparr>pa_id = open_id, pa_action_type = ''update_customer_status'',
           pa_payload_json = example_status_text, pa_status = ''pending'',
           pa_created_at = ''2024-05-01T10:01:00''\<rparr>"
  let ?new = "\<lparr>pa_id = uuid4_hex example_env, pa_action_type = ''update_customer_status'',
       pa_payload_json = dumps example_env (model_dump example_status_in),
       pa_status = ''pending'', pa_created_at = utcnow example_env\<rparr>"
  let ?start = "example_db\<lparr>pending_actions := []\<rparr>"
  let ?first = "[(example_env, Tool (UpdateCustomerStatus example_status_in))]"
  have g1: "pa_status ?gone = ''pending''" and g2: "pa_action_type ?gone = ''update_customer_status''"
    and g3: "loads example_env (pa_payload_json ?gone) = Some example_gone"
    and g4: "subscript example_gone ''customer_id'' = Inr (JInt 9)"
    by (simp_all add: example_loads_gone example_gone_def subscript_def)
  have o1: "pa_status ?open = ''pending''" and o2: "pa_action_type ?open = ''update_customer_status''"
    and o3: "loads example_env (pa_payload_json ?open) = Some (model_dump example_status_in)"
    and o4: "subscript (model_dump example_status_in) ''customer_id'' = Inr (JInt 1)"
    and o5: "subscript (model_dump example_status_in) ''new_status'' = Inr (JStr '' Churned '')"
    by (simp_all add: example_loads_status model_dump_def example_status_in_def subscript_def)
  have n0: "find_pending (run ?first ?start) (uuid4_hex example_env) = Some ?new"
    by (simp only: example_start_run) (simp add: find_pending_def)
  have n1: "pa_status ?new = ''pending''" and n2: "pa_action_type ?new = ''update_customer_status''"
    and n3: "loads example_env (pa_payload_json ?new) = Some (model_dump example_status_in)"
    by (simp_all add: example_dumps_status example_loads_status)
  have reach: "pending_actions ?start = [] \<and> run ?first ?start = run ?first ?start \<and>
      list_all (reads_back (loads example_env)) ?first"
    using example_reads_back by simp
  from approve_update_customer_status [OF example_gone_row g1 g2 g3 g4, THEN conjunct1]
    example_find_customer_9
  have a: "confirm_action example_env gone_id True example_db =
     (Inl (HTTPException 404 ''Customer not found during confirm''),
      set_pending_status example_db gone_id ''rejected'') \<and>
     customers (snd (confirm_action example_env gone_id True example_db)) = customers example_db"
    by blast
  from approve_update_customer_status [OF example_open o1 o2 o3 o4,
      THEN conjunct2, THEN conjunct1,
      of "\<lparr>c_id = 1, c_name = ''ACME AB'', c_status = ''Active''\<rparr>" "'' Churned ''"]
    example_find_customer_1 o5
  have b: "confirm_action example_env open_id True example_db =
     (Inr (JObj [(''ok'', JBool True), (''status'', JStr ''confirmed''),
                 (''customer'',
                  JObj [(''id'', JInt 1), (''name'', JStr ''ACME AB''),
                        (''status'', JStr ''Churned'')])]),
      set_pending_status (set_customer_status example_db 1 ''Churned'') open_id ''confirmed'')"
    by (simp add: strip_churned)
  have c: "bindable 1"
    by (rule approve_update_customer_status [OF n0 n1 n2 n3 o4,
          THEN conjunct2, THEN conjunct2, THEN mp, THEN conjunct1])
       (rule reach)
  from reach have r1: "pending_actions ?start = []"
    and r2: "list_all (reads_back (loads example_env)) ?first"
    by simp_all
  from example_gone_row example_find_customer_9 a example_find_customer_1 b r1 r2 c
  show ?thesis
    by (elim conjE) (intro conjI; assumption)
qed

text \<open>
  Claim C6 as stated fails where the stored \<open>new_status\<close> has surrounding whitespace:
  the payload stored under \<open>open_id\<close> holds \<^verbatim>\<open>" Churned "\<close> and the approval sets the
  status \<^verbatim>\<open>"Churned"\<close>.
\<close>

theorem approve_sets_stored_status_counterexample:
  "find_pending example_db open_id =
     Some \<lparr>pa_id = open_id, pa_action_type = ''update_customer_status'',
           pa_payload_json = example_status_text, pa_status = ''pending'',
           pa_created_at = ''2024-05-01T10:01:00''\<rparr> \<and>
   loads example_env example_status_text = Some (model_dump example_status_in) \<and>
   subscript (model_dump example_status_in) ''customer_id'' = Inr (JInt 1) \<and>
   subscript (model_dump example_status_in) ''new_status'' = Inr (JStr '' Churned '') \<and>
   find_customer example_db 1 =
     Inr (Some \<lparr>c_id = 1, c_name = ''ACME AB'', c_status = ''Active''\<rparr>) \<and>
   map_option c_status
     (customer_row (snd (confirm_action example_env open_id True example_db)) 1) =
     Some ''Churned'' \<and>
   map_option c_status
     (customer_row (snd (confirm_action example_env open_id True example_db)) 1) \<noteq>
     Some '' Churned ''"
  by (simp add: example_open example_loads_status example_approve_open
      customer_row_set_customer_status example_customer_1 example_find_customer_1)
     (simp add: model_dump_def example_status_in_def subscript_def)

theorem approve_unknown_action_type_witness:
  "find_pending example_db odd_id =
     Some \<lparr>pa_id = odd_id, pa_action_type = ''delete_customer'',
           pa_payload_json = ''{}'', pa_status = ''pending'',
           pa_created_at = ''2024-05-01T10:03:00''\<rparr> \<and>
   confirm_action example_env odd_id True example_db =
     (Inl (HTTPException 400 ''Unknown action_type: delete_customer''),
      set_pending_status example_db odd_id ''rejected'') \<and>
   customers (snd (confirm_action example_env odd_id True example_db)) = customers example_db"
proof -
  let ?odd = "\<lparr>pa_id = odd_id, pa_action_type = ''delete_customer'',
           pa_payload_json = ''{}'', pa_status = ''pending'',
           pa_created_at = ''2024-05-01T10:03:00''\<rparr>"
  have h1: "pa_status ?odd = ''pending''"
    and h2: "pa_action_type ?odd \<noteq> ''update_customer_status''"
    and h3: "loads example_env (pa_payload_json ?odd) = Some (JObj [])"
    by (simp_all add: example_loads_empty)
  from approve_unknown_action_type [OF example_odd_row h1 h2 h3] example_odd_row
  show ?thesis by simp
qed

text \<open>
  Claim C7 as stated fails on the status: the action under \<open>odd_id\<close> has the unknown
  type \<^verbatim>\<open>delete_customer\<close> and its approval is answered with status 400.
\<close>

theorem unknown_action_type_server_error_counterexample:
  "find_pending example_db odd_id =
     Some \<lparr>pa_id = odd_id, pa_action_type = ''delete_customer'',
           pa_payload_json = ''{}'', pa_status = ''pending'',
           pa_created_at = ''2024-05-01T10:03:00''\<rparr> \<and>
   fst (confirm_action example_env odd_id True example_db) =
     Inl (HTTPException 400 ''Unknown action_type: delete_customer'') \<and>
   \<not> is_server_error (HTTPException 400 ''Unknown action_type: delete_customer'')"
  by (simp add: example_odd_row confirm_action_def example_loads_empty is_server_error_def)

section \<open>First execution, then replay\<close>

text \<open>
  The scenario behind the replay: a first call under a new key adds one ticket and stores
  its response; the same key then returns that response, marked as a replay, from the
  database the first call left.
\<close>

lemma create_ticket_then_replay:
  assumes "''create_ticket'' \<in> allowed_tools (ALLOWED_TOOLS e)"
    and "''create_ticket'' \<in> allowed_tools (ALLOWED_TOOLS e2)"
    and "truthy key"
    and "find_record d ''create_ticket'' (key_text key) = None"
    and "find_customer d (ct_customer_id p) = Inr (Some cust)"
    and "\<forall>v. loads e2 (dumps e v) = Some v"
  shows "\<exists>response d1.
           create_ticket e p key d =
             (Inr (JObj (response @ [(''idempotent_replay'', JBool False)])), d1) \<and>
           length (tickets d1) = Suc (length (tickets d)) \<and>
           create_ticket e2 p2 key d1 =
             (Inr (JObj (response @ [(''idempotent_replay'', JBool True)])), d1)"
proof -
  let ?t = "\<lparr>t_id = next_id (map t_id (tickets d)),
             t_title = strip (ct_title p),
             t_description = strip (ct_description p),
             t_priority = lower (strip (ct_priority p)),
             t_created_at = utcnow e,
             t_customer_id = ct_customer_id p\<rparr>"
  let ?response = "[(''ticket'',
                   JObj [(''id'', JInt (t_id ?t)),
                         (''customer_id'', JInt (t_customer_id ?t)),
                         (''title'', JStr (t_title ?t)),
                         (''priority'', JStr (t_priority ?t)),
                         (''created_at'', JStr (t_created_at ?t @ ''Z''))])]"
  let ?rec = "\<lparr>ir_id = next_id (map ir_id (idempotency_records d)),
               ir_tool = ''create_ticket'', ir_key = key_text key,
               ir_response_json = dumps e (JObj ?response),
               ir_created_at = utcnow_again e\<rparr>"
  let ?d1 = "d\<lparr>tickets := tickets d @ [?t],
               idempotency_records := idempotency_records d @ [?rec]\<rparr>"
  have none: "find_record (d\<lparr>tickets := tickets d @ [?t]\<rparr>) ''create_ticket'' (key_text key) = None"
    using assms(4) by (simp add: find_record_def)
  have first: "create_ticket e p key d =
      (Inr (JObj (?response @ [(''idempotent_replay'', JBool False)])), ?d1)"
    using assms(1,3,4,5) none
    by (simp add: create_ticket_def tool_guard_allowed get_cached_response_def
        create_ticket_execute_def store_response_def Let_def)
  have found: "find_record ?d1 ''create_ticket'' (key_text key) = Some ?rec"
    using assms(4) by (simp add: find_record_def find_append)
  have decoded: "loads e2 (ir_response_json ?rec) = Some (JObj ?response)"
    using assms(6) by simp
  have second: "create_ticket e2 p2 key ?d1 =
      (Inr (JObj (?response @ [(''idempotent_replay'', JBool True)])), ?d1)"
    using assms(2,3) found decoded
    by (simp add: create_ticket_def tool_guard_allowed get_cached_response_def dict_with_def)
  have "length (tickets ?d1) = Suc (length (tickets d))" by simp
  with first second show ?thesis by blast
qed

end
